theory Spec2Isabelle
  imports Complex_Main "HOL-Library.AList"
begin

section \<open>JavaScript values used by the program\<close>

text \<open>
  Identifiers that reach the routes come from \<^verbatim>\<open>parseInt(req.params.id)\<close>: an integer or
  \<^verbatim>\<open>NaN\<close>. A \<^verbatim>\<open>Map\<close> compares keys with SameValueZero, so \<^verbatim>\<open>NaN\<close> is a key like
  any other; \<^verbatim>\<open>if (id)\<close> is false for \<^verbatim>\<open>0\<close> and \<^verbatim>\<open>NaN\<close>.
\<close>

datatype jsnum = NaN | Num int

definition truthy :: "jsnum \<Rightarrow> bool" where
  "truthy n = (case n of NaN \<Rightarrow> False | Num i \<Rightarrow> i \<noteq> 0)"

text \<open>
  An \<^verbatim>\<open>Error\<close> object: its \<^verbatim>\<open>name\<close> ("Error", or the name of a subclass), its \<^verbatim>\<open>message\<close> and
  its optional \<^verbatim>\<open>code\<close> property. \<^verbatim>\<open>String(error)\<close> is \<^verbatim>\<open>Error.prototype.toString\<close>.
\<close>

datatype js_error = JsError (errName: string) (message: string) (code: "string option")

definition errorToString :: "js_error \<Rightarrow> string" where
  "errorToString e =
     (if errName e = [] then message e
      else if message e = [] then errName e
      else errName e @ '': '' @ message e)"

text \<open>
  What a \<^verbatim>\<open>catch\<close> receives: an \<^verbatim>\<open>Error\<close> object, or a primitive value, given by its
  \<^verbatim>\<open>String(value)\<close> and by whether it is \<^verbatim>\<open>null\<close> or \<^verbatim>\<open>undefined\<close> (reading a property of
  these throws, of another primitive gives \<^verbatim>\<open>undefined\<close>). Thrown objects that are not
  \<^verbatim>\<open>Error\<close>s are outside the model.
\<close>

datatype thrown = ErrorObject js_error | Primitive string bool

definition thrownToString :: "thrown \<Rightarrow> string" where
  "thrownToString t = (case t of ErrorObject e \<Rightarrow> errorToString e | Primitive s nul \<Rightarrow> s)"

text \<open>\<^verbatim>\<open>error instanceof Error ? error.message : String(error)\<close>\<close>

definition messageOrString :: "thrown \<Rightarrow> string" where
  "messageOrString t = (case t of ErrorObject e \<Rightarrow> message e | Primitive s nul \<Rightarrow> s)"

text \<open>Decimal rendering of an integer inside a template literal.\<close>

definition digitChar :: "nat \<Rightarrow> char" where
  "digitChar d = ''0123456789'' ! d"

function showNat :: "nat \<Rightarrow> string" where
  "showNat n = (if n < 10 then [digitChar n] else showNat (n div 10) @ [digitChar (n mod 10)])"
  by pat_completeness auto
termination
  by (relation "measure (\<lambda>n. n)") auto

declare showNat.simps [simp del]

definition showInt :: "int \<Rightarrow> string" where
  "showInt i = (if i < 0 then CHR ''-'' # showNat (nat (- i)) else showNat (nat i))"

subsection \<open>Numbers\<close>

text \<open>
  A JavaScript number is an IEEE 754 double. The model computes on the reals and rounds
  where the code does: \<open>double x\<close> is the double nearest to \<open>x\<close> (53 significant bits,
  ties to the even significand). \<open>normalize\<close> scales \<open>m\<close> into \<open>[2^52, 2^53)\<close> and keeps
  \<open>m * s\<close>. The exponent range is not modelled (no overflow, no subnormal numbers): the
  numbers rounded here are random fractions times small integers, delays and coordinates.
  Integers (identifiers, counters, ports, milliseconds) are taken of magnitude below
  \<open>2^53\<close>, where the arithmetic of doubles is exact on them.
\<close>

function normalize :: "real \<Rightarrow> real \<Rightarrow> real \<times> real" where
  "normalize m s =
     (if m \<le> 0 then (m, s)
      else if 2 ^ 53 \<le> m then normalize (m / 2) (s * 2)
      else if m < 2 ^ 52 then normalize (m * 2) (s / 2)
      else (m, s))"
  by pat_completeness auto
termination
proof (relation "measure (\<lambda>(m, s). if 2 ^ 53 \<le> m then nat \<lceil>m\<rceil> + 1 else nat \<lceil>2 ^ 105 / m\<rceil>)")
  show "wf (measure (\<lambda>(m, s). if 2 ^ 53 \<le> m then nat \<lceil>m\<rceil> + 1 else nat \<lceil>2 ^ 105 / m\<rceil>))"
    by simp
next
  fix m s :: real
  assume a: "\<not> m \<le> 0" "2 ^ 53 \<le> m"
  show "((m / 2, s * 2), (m, s))
         \<in> measure (\<lambda>(m, s). if 2 ^ 53 \<le> m then nat \<lceil>m\<rceil> + 1 else nat \<lceil>2 ^ 105 / m\<rceil>)"
  proof (cases "2 ^ 53 \<le> m / 2")
    case True
    have "m / 2 \<le> m - 1" using True by simp
    then have "\<lceil>m / 2\<rceil> \<le> \<lceil>m - 1\<rceil>" by (rule ceiling_mono)
    then have "\<lceil>m / 2\<rceil> < \<lceil>m\<rceil>" by simp
    moreover have "0 < \<lceil>m\<rceil>" using a by simp
    ultimately show ?thesis using True a by simp
  next
    case False
    have "(2::real) ^ 53 * 2 ^ 53 \<le> m * m" using a(2) by (intro mult_mono) simp_all
    then have "2 ^ 105 / (m / 2) \<le> m" using a by (simp add: field_simps)
    then have "\<lceil>2 ^ 105 / (m / 2)\<rceil> \<le> \<lceil>m\<rceil>" by (rule ceiling_mono)
    then have "nat \<lceil>2 ^ 105 / (m / 2)\<rceil> \<le> nat \<lceil>m\<rceil>" by (rule nat_mono)
    then have k: "nat \<lceil>2 ^ 105 / (m / 2)\<rceil> < nat \<lceil>m\<rceil> + 1" by linarith
    show ?thesis by (simp only: in_measure prod.case False a(2) if_True if_False k)
  qed
next
  fix m s :: real
  assume a: "\<not> m \<le> 0" "\<not> 2 ^ 53 \<le> m" "m < 2 ^ 52"
  have "2 ^ 105 / m > 2" using a by (simp add: field_simps)
  then have "2 ^ 105 / (m * 2) \<le> 2 ^ 105 / m - 1" using a by (simp add: field_simps)
  then have "\<lceil>2 ^ 105 / (m * 2)\<rceil> \<le> \<lceil>2 ^ 105 / m - 1\<rceil>" by (rule ceiling_mono)
  then have "\<lceil>2 ^ 105 / (m * 2)\<rceil> < \<lceil>2 ^ 105 / m\<rceil>" by simp
  moreover have "0 < \<lceil>2 ^ 105 / m\<rceil>" using a by simp
  ultimately show "((m * 2, s / 2), (m, s))
         \<in> measure (\<lambda>(m, s). if 2 ^ 53 \<le> m then nat \<lceil>m\<rceil> + 1 else nat \<lceil>2 ^ 105 / m\<rceil>)"
    using a by simp
qed

declare normalize.simps [simp del]

definition roundHalfEven :: "real \<Rightarrow> int" where
  "roundHalfEven q =
     (let f = \<lfloor>q\<rfloor>; d = q - of_int f
      in if d < 1 / 2 then f else if 1 / 2 < d then f + 1 else if even f then f else f + 1)"

definition double :: "real \<Rightarrow> real" where
  "double x =
     (if x = 0 then 0
      else (let (m, s) = normalize \<bar>x\<bar> 1 in sgn x * of_int (roundHalfEven m) * s))"

section \<open>shared/schema.ts: configuration and log records\<close>

record BotConfig =
  cfgId :: int
  username :: string
  serverIp :: string
  serverPort :: int
  autoReconnect :: bool
  reconnectInterval :: int
  maxReconnectAttempts :: int
  logLevel :: string
  wanderEnabled :: bool
  chatEnabled :: bool
  useRandomNames :: bool
  isActive :: bool

text \<open>
  \<^verbatim>\<open>InsertBotConfig\<close>: every column has a default, so the insert schema makes every field
  optional; \<^verbatim>\<open>None\<close> is an absent (\<^verbatim>\<open>undefined\<close>) field.
\<close>

record InsertBotConfig =
  inUsername :: "string option"
  inServerIp :: "string option"
  inServerPort :: "int option"
  inAutoReconnect :: "bool option"
  inReconnectInterval :: "int option"
  inMaxReconnectAttempts :: "int option"
  inLogLevel :: "string option"
  inWanderEnabled :: "bool option"
  inChatEnabled :: "bool option"
  inUseRandomNames :: "bool option"
  inIsActive :: "bool option"

record LogEntry =
  logId :: int
  timestamp :: int
  level :: string
  logMessage :: string

record InsertLogEntry =
  inLevel :: string
  inMessage :: string

section \<open>server/storage.ts: MemStorage\<close>

text \<open>
  Both maps are JavaScript \<^verbatim>\<open>Map\<close>s, which iterate in insertion order and keep the place of
  a key that is set again: association lists under \<^const>\<open>AList.update\<close>.

  A \<^verbatim>\<open>BotConfig\<close> is an object, and the storage hands out the object itself, not a copy:
  the route gives it to the service it creates, and \<^verbatim>\<open>updateBotStatus\<close> writes to it in
  place. So the objects live at addresses (\<open>objects\<close>, allocated by \<open>nextObject\<close>), the
  map holds addresses, and so does a service.
\<close>

record MemStorage =
  objects :: "nat \<Rightarrow> BotConfig"
  nextObject :: nat
  botConfigs :: "(int \<times> nat) list"
  logs :: "(int \<times> LogEntry) list"
  currentBotId :: int
  currentLogId :: int

definition defaultBotConfig :: BotConfig where
  "defaultBotConfig =
     \<lparr>cfgId = 1, username = ''MinecraftBot_01'', serverIp = ''example.com'',
      serverPort = 12345, autoReconnect = True, reconnectInterval = 30,
      maxReconnectAttempts = 10, logLevel = ''info'', wanderEnabled = False,
      chatEnabled = False, useRandomNames = False, isActive = False\<rparr>"

definition newMemStorage :: MemStorage where
  "newMemStorage =
     \<lparr>objects = (\<lambda>r. defaultBotConfig), nextObject = 1, botConfigs = [(1, 0)],
      logs = [], currentBotId = 1, currentLogId = 1\<rparr>"

definition mapGet :: "(int \<times> 'v) list \<Rightarrow> jsnum \<Rightarrow> 'v option" where
  "mapGet m k = (case k of NaN \<Rightarrow> None | Num i \<Rightarrow> map_of m i)"

text \<open>\<^verbatim>\<open>getBotConfig\<close> returns the stored object: its address.\<close>

definition getBotConfig :: "jsnum option \<Rightarrow> MemStorage \<Rightarrow> nat option" where
  "getBotConfig ido st =
     (case ido of
        None \<Rightarrow> map_of (botConfigs st) 1
      | Some n \<Rightarrow> if truthy n then mapGet (botConfigs st) n else map_of (botConfigs st) 1)"

text \<open>Every caller of \<^verbatim>\<open>getAllBotConfigs\<close> serialises the array at once: the values of the
  objects at the time of the call.\<close>

definition getAllBotConfigs :: "MemStorage \<Rightarrow> BotConfig list" where
  "getAllBotConfigs st = map (\<lambda>(i, r). objects st r) (botConfigs st)"

text \<open>\<^verbatim>\<open>a || d\<close> on an optional string or number, \<^verbatim>\<open>a ?? d\<close> on an optional boolean.\<close>

definition orStr :: "string option \<Rightarrow> string \<Rightarrow> string" where
  "orStr a d = (case a of None \<Rightarrow> d | Some s \<Rightarrow> if s = [] then d else s)"

definition orNum :: "int option \<Rightarrow> int \<Rightarrow> int" where
  "orNum a d = (case a of None \<Rightarrow> d | Some n \<Rightarrow> if n = 0 then d else n)"

definition nullish :: "bool option \<Rightarrow> bool \<Rightarrow> bool" where
  "nullish a d = (case a of None \<Rightarrow> d | Some b \<Rightarrow> b)"

text \<open>\<^verbatim>\<open>createBotConfig\<close> makes a new object, stores it and returns it: its address.\<close>

definition createBotConfig :: "InsertBotConfig \<Rightarrow> MemStorage \<Rightarrow> nat \<times> MemStorage" where
  "createBotConfig c st =
     (let i = currentBotId st + 1;
          r = nextObject st;
          newConfig =
            \<lparr>cfgId = i,
             username = orStr (inUsername c) ''MinecraftBot'',
             serverIp = orStr (inServerIp c) ''example.com'',
             serverPort = orNum (inServerPort c) 12345,
             autoReconnect = nullish (inAutoReconnect c) True,
             reconnectInterval = orNum (inReconnectInterval c) 30,
             maxReconnectAttempts = orNum (inMaxReconnectAttempts c) 10,
             logLevel = orStr (inLogLevel c) ''info'',
             wanderEnabled = nullish (inWanderEnabled c) False,
             chatEnabled = nullish (inChatEnabled c) False,
             useRandomNames = nullish (inUseRandomNames c) False,
             isActive = nullish (inIsActive c) False\<rparr>
      in (r, st\<lparr>currentBotId := i, objects := (objects st)(r := newConfig), nextObject := r + 1,
               botConfigs := AList.update i r (botConfigs st)\<rparr>))"

text \<open>The object spread \<^verbatim>\<open>{...existing, ...config}\<close>: a field present in \<open>config\<close> wins.\<close>

definition spread :: "BotConfig \<Rightarrow> InsertBotConfig \<Rightarrow> BotConfig" where
  "spread e c =
     \<lparr>cfgId = cfgId e,
      username = (case inUsername c of None \<Rightarrow> username e | Some v \<Rightarrow> v),
      serverIp = (case inServerIp c of None \<Rightarrow> serverIp e | Some v \<Rightarrow> v),
      serverPort = (case inServerPort c of None \<Rightarrow> serverPort e | Some v \<Rightarrow> v),
      autoReconnect = (case inAutoReconnect c of None \<Rightarrow> autoReconnect e | Some v \<Rightarrow> v),
      reconnectInterval = (case inReconnectInterval c of None \<Rightarrow> reconnectInterval e | Some v \<Rightarrow> v),
      maxReconnectAttempts =
        (case inMaxReconnectAttempts c of None \<Rightarrow> maxReconnectAttempts e | Some v \<Rightarrow> v),
      logLevel = (case inLogLevel c of None \<Rightarrow> logLevel e | Some v \<Rightarrow> v),
      wanderEnabled = (case inWanderEnabled c of None \<Rightarrow> wanderEnabled e | Some v \<Rightarrow> v),
      chatEnabled = (case inChatEnabled c of None \<Rightarrow> chatEnabled e | Some v \<Rightarrow> v),
      useRandomNames = (case inUseRandomNames c of None \<Rightarrow> useRandomNames e | Some v \<Rightarrow> v),
      isActive = (case inIsActive c of None \<Rightarrow> isActive e | Some v \<Rightarrow> v)\<rparr>"

datatype storage_error = ConfigNotFound

text \<open>\<^verbatim>\<open>updateBotConfig\<close> makes a new object from the spread and puts it in the place of the
  existing one, which it leaves as it is.\<close>

definition updateBotConfig ::
  "InsertBotConfig \<Rightarrow> jsnum option \<Rightarrow> MemStorage \<Rightarrow> storage_error + (nat \<times> MemStorage)" where
  "updateBotConfig c ido st =
     (let configId = (case ido of None \<Rightarrow> 1
                      | Some n \<Rightarrow> (case n of NaN \<Rightarrow> 1 | Num i \<Rightarrow> if i = 0 then 1 else i))
      in case map_of (botConfigs st) configId of
           Some existing \<Rightarrow>
             (let r = nextObject st;
                  updated = spread (objects st existing) c
              in Inr (r, st\<lparr>objects := (objects st)(r := updated), nextObject := r + 1,
                          botConfigs := AList.update configId r (botConfigs st)\<rparr>))
         | None \<Rightarrow> Inl ConfigNotFound)"

definition deleteBotConfig :: "jsnum \<Rightarrow> MemStorage \<Rightarrow> MemStorage" where
  "deleteBotConfig n st =
     (case n of NaN \<Rightarrow> st | Num i \<Rightarrow> st\<lparr>botConfigs := AList.delete i (botConfigs st)\<rparr>)"

text \<open>\<^verbatim>\<open>updateBotStatus\<close> writes \<open>isActive\<close> into the stored object, which every holder of
  the object sees, and sets the map entry to the same object again.\<close>

definition updateBotStatus :: "jsnum \<Rightarrow> bool \<Rightarrow> MemStorage \<Rightarrow> MemStorage" where
  "updateBotStatus n active st =
     (case n of
        NaN \<Rightarrow> st
      | Num i \<Rightarrow>
          (case map_of (botConfigs st) i of
             Some r \<Rightarrow> st\<lparr>objects := (objects st)(r := (objects st r)\<lparr>isActive := active\<rparr>),
                          botConfigs := AList.update i r (botConfigs st)\<rparr>
           | None \<Rightarrow> st))"

text \<open>\<^verbatim>\<open>createLogEntry\<close> reads the wall clock (\<^verbatim>\<open>new Date()\<close>): the argument \<open>now\<close>, in ms.\<close>

definition createLogEntry :: "InsertLogEntry \<Rightarrow> int \<Rightarrow> MemStorage \<Rightarrow> LogEntry \<times> MemStorage" where
  "createLogEntry e now st =
     (let i = currentLogId st;
          logEntry = \<lparr>logId = i, timestamp = now, level = inLevel e, logMessage = inMessage e\<rparr>
      in (logEntry, st\<lparr>currentLogId := i + 1, logs := AList.update i logEntry (logs st)\<rparr>))"

text \<open>
  \<^verbatim>\<open>Array.prototype.sort\<close> is a stable sort by the comparator (ECMAScript 2019): the
  element \<open>x\<close> goes in front of the first \<open>y\<close> with \<open>cmp x y \<le> 0\<close>, elements taken from
  the right, so that elements the comparator calls equal keep their order.
\<close>

fun insertBy :: "('a \<Rightarrow> 'a \<Rightarrow> int) \<Rightarrow> 'a \<Rightarrow> 'a list \<Rightarrow> 'a list" where
  "insertBy cmp x [] = [x]"
| "insertBy cmp x (y # ys) = (if cmp x y \<le> 0 then x # y # ys else y # insertBy cmp x ys)"

definition sortBy :: "('a \<Rightarrow> 'a \<Rightarrow> int) \<Rightarrow> 'a list \<Rightarrow> 'a list" where
  "sortBy cmp xs = foldr (insertBy cmp) xs []"

text \<open>\<^verbatim>\<open>slice(0, limit)\<close>: a negative limit counts from the end.\<close>

definition slice0 :: "int \<Rightarrow> 'a list \<Rightarrow> 'a list" where
  "slice0 limit xs =
     (if limit < 0 then take (length xs - nat (- limit)) xs else take (nat limit) xs)"

definition getLogEntries :: "int \<Rightarrow> MemStorage \<Rightarrow> LogEntry list" where
  "getLogEntries limit st =
     rev (slice0 limit (sortBy (\<lambda>a b. timestamp b - timestamp a) (map snd (logs st))))"

definition clearLogEntries :: "MemStorage \<Rightarrow> MemStorage" where
  "clearLogEntries st = st\<lparr>logs := [], currentLogId := 1\<rparr>"

section \<open>nameGenerator: the Username Allocator\<close>

definition firstNames :: "string list" where
  "firstNames =
     [''Alex'', ''Steve'', ''Luna'', ''Max'', ''Emma'', ''Jake'', ''Zoe'', ''Noah'', ''Lily'', ''Sam'',
      ''Kai'', ''Maya'', ''Leo'', ''Aria'', ''Finn'', ''Nora'', ''Cole'', ''Ruby'', ''Jack'', ''Ivy'',
      ''Owen'', ''Mia'', ''Liam'', ''Eva'', ''Luke'', ''Sky'', ''Ryan'', ''Sage'', ''Dean'', ''Rose'',
      ''Blake'', ''Jade'', ''Gray'', ''Belle'', ''Cruz'', ''Wren'', ''Knox'', ''Faye'', ''Jude'', ''Vale'']"

definition suffixes :: "string list" where
  "suffixes =
     [''Gaming'', ''Pro'', ''Master'', ''Craft'', ''Build'', ''Mine'', ''Player'', ''Hero'',
      ''2024'', ''99'', ''101'', ''X'', ''Z'', ''MC'', ''YT'', ''TTV'', ''Live'', ''Stream'',
      ''Builder'', ''Miner'', ''Crafter'', ''Legend'', ''King'', ''Queen'', ''Boss'', ''Elite'',
      ''Gamer'', ''Noob'', ''Newbie'', ''Rookie'', ''Veteran'', ''Expert'', ''Ninja'', ''Wizard'']"

definition adjectives :: "string list" where
  "adjectives =
     [''Cool'', ''Epic'', ''Awesome'', ''Super'', ''Mega'', ''Ultra'', ''Shadow'', ''Dark'',
      ''Light'', ''Fire'', ''Ice'', ''Storm'', ''Thunder'', ''Swift'', ''Silent'', ''Wild'',
      ''Brave'', ''Bold'', ''Lucky'', ''Smart'', ''Quick'', ''Strong'', ''Mystic'', ''Golden'',
      ''Silver'', ''Diamond'', ''Emerald'', ''Ruby'', ''Crystal'', ''Neon'', ''Cyber'', ''Digital'']"

text \<open>
  \<^verbatim>\<open>Math.random()\<close> is the environment's: the stream \<open>rnd\<close> of the doubles it returns, each
  in \<open>[0, 1)\<close>, read at a position that every call advances. A product is rounded to a
  double before \<^verbatim>\<open>Math.floor\<close>, and a literal such as \<^verbatim>\<open>0.4\<close> is the double nearest to it.
  \<^verbatim>\<open>xs[Math.floor(r * xs.length)]\<close> is \<^verbatim>\<open>undefined\<close> out of range, which a template literal
  renders as the text "undefined".
\<close>

definition randomIndex :: "real \<Rightarrow> nat \<Rightarrow> int" where
  "randomIndex r n = \<lfloor>double (r * real n)\<rfloor>"

definition pick :: "string list \<Rightarrow> real \<Rightarrow> string" where
  "pick xs r =
     (let i = randomIndex r (length xs)
      in if 0 \<le> i \<and> nat i < length xs then xs ! nat i else ''undefined'')"

definition candidate :: "(nat \<Rightarrow> real) \<Rightarrow> nat \<Rightarrow> string \<times> nat" where
  "candidate rnd p =
     (let nameType = rnd p;
          base =
            (if nameType < double (4 / 10)
             then pick firstNames (rnd (p + 1)) @ pick suffixes (rnd (p + 2))
             else if nameType < double (7 / 10)
             then pick adjectives (rnd (p + 1)) @ pick firstNames (rnd (p + 2))
             else pick firstNames (rnd (p + 1)) @ showInt (randomIndex (rnd (p + 2)) 9999 + 1))
      in if rnd (p + 3) < double (1 / 10)
         then (base @ pick [''_'', ''X'', ''Z''] (rnd (p + 4)), p + 5)
         else (base, p + 4))"

text \<open>
  The loop of \<^verbatim>\<open>generateRandomUsername\<close>, from \<open>attempts\<close> on: the name returned, the next
  position of the random stream and the new \<^verbatim>\<open>usedNames\<close>.
\<close>

function generateLoop ::
  "(nat \<Rightarrow> real) \<Rightarrow> nat \<Rightarrow> nat \<Rightarrow> string set \<Rightarrow> string \<times> nat \<times> string set" where
  "generateLoop rnd p attempts used =
     (if attempts < 100 then
        (let (uname, p') = candidate rnd p
         in if length uname \<le> 16 \<and> uname \<notin> used then (uname, p', insert uname used)
            else generateLoop rnd p' (attempts + 1) used)
      else
        (let fallback = ''Player'' @ showInt (randomIndex (rnd p) 99999)
         in (fallback, p + 1, insert fallback used)))"
  by pat_completeness auto
termination
  by (relation "measure (\<lambda>(rnd, p, attempts, used). 100 - attempts)") auto

declare generateLoop.simps [simp del]

definition generateRandomUsername ::
  "(nat \<Rightarrow> real) \<Rightarrow> nat \<Rightarrow> string set \<Rightarrow> string \<times> nat \<times> string set" where
  "generateRandomUsername rnd p used = generateLoop rnd p 0 used"

definition releaseUsername :: "string \<Rightarrow> string set \<Rightarrow> string set" where
  "releaseUsername uname used = used - {uname}"

section \<open>The session library (mineflayer), the timers and the sockets\<close>

text \<open>
  A session handle is what \<^verbatim>\<open>mineflayer.createBot\<close> returns. The model keeps, for each
  handle, the options it was created with, the service whose handlers are attached
  (\<open>listener\<close>, none after \<^verbatim>\<open>removeAllListeners()\<close>), the calls made on it, and what the
  library lets the service read (\<^verbatim>\<open>bot.username\<close>, \<^verbatim>\<open>bot.game\<close>, \<^verbatim>\<open>bot.version\<close>, the number of
  \<^verbatim>\<open>bot.players\<close>, \<^verbatim>\<open>bot.player?.ping\<close>, \<^verbatim>\<open>bot.health\<close> taken integral, the position of
  \<^verbatim>\<open>bot.entity\<close>). Whether a call on the handle throws, and what, is the library's choice
  too: \<open>removeError\<close>, \<open>quitError\<close>, \<open>moveError\<close> and \<open>chatError\<close>. The "error" event of a
  session carries an \<^verbatim>\<open>Error\<close> object.
\<close>

datatype command =
    RemoveAllListeners
  | Quit
  | LookAt real real real
  | SetControlState string bool
  | Chat string

record session =
  host :: string
  port :: int
  loginName :: string
  listener :: "nat option"
  commands :: "command list"
  sessUsername :: string
  game :: bool
  version :: string
  players :: nat
  ping :: "int option"
  health :: int
  entity :: "(real \<times> real \<times> real) option"
  removeError :: "thrown option"
  quitError :: "thrown option"
  moveError :: bool
  chatError :: bool

datatype session_event =
    Login
  | Spawn
  | ChatEv string string
  | ErrorEv js_error
  | Kicked string
  | End
  | Death
  | Health

text \<open>A pending timer: the callback it runs, on which service, its delay in ms, and whether
  \<^verbatim>\<open>setInterval\<close> made it.\<close>

datatype task = Reconnect nat | Wander nat | IdleChat nat | ForwardOff nat | WanderDone nat

record timer =
  task :: task
  delay :: real
  repeating :: bool

record MinecraftBotService =
  bot' :: "nat option"
  config :: nat
  reconnectAttempts :: int
  startTime :: "int option"
  reconnectTimeout :: "nat option"
  wanderInterval :: "nat option"
  chatInterval :: "nat option"
  actualUsername :: string
  isWandering :: bool

definition newService :: "nat \<Rightarrow> MinecraftBotService" where
  "newService c =
     \<lparr>bot' = None, config = c, reconnectAttempts = 0, startTime = None, reconnectTimeout = None,
      wanderInterval = None, chatInterval = None, actualUsername = [], isWandering = False\<rparr>"

record ServerInfo =
  siVersion :: string
  siPlayerCount :: string
  siPing :: int

record BotStatus =
  stId :: int
  connected' :: bool
  stUsername :: string
  uptime :: int
  reconnectCount :: int
  wandering :: bool
  serverInfo :: "ServerInfo option"

datatype emitted = Log string string | StatusUpdate BotStatus | ErrorEvent thrown

datatype WSMessage =
    BotStatusMsg BotStatus jsnum
  | LogEntryMsg LogEntry jsnum
  | ErrorMsg string jsnum
  | BotsUpdate "BotConfig list"

record client =
  isOpen :: bool
  sendError :: bool
  received :: "WSMessage list"

text \<open>
  The whole server. Services live at addresses (\<open>services\<close>, allocated by \<open>nextService\<close>):
  the registry \<open>botServices\<close> maps an id to an address, and a service that the registry
  no longer holds stays alive while a timer or a session refers to it. \<open>routeId a\<close> is the
  \<^verbatim>\<open>botId\<close> bound by \<^verbatim>\<open>setupBotServiceEvents\<close> for the service at \<open>a\<close>. \<open>emitted\<close> records
  every \<^verbatim>\<open>emit\<close> of every service, oldest first. \<open>microtasks\<close> holds the broadcasts that
  the asynchronous log listener makes after its \<^verbatim>\<open>await\<close>. \<open>now\<close> is the wall clock in ms;
  \<open>createBotError\<close> is what \<^verbatim>\<open>createBot\<close> throws, if it does.
\<close>

record world =
  storage :: MemStorage
  botServices :: "(jsnum \<times> nat) list"
  connectedClients :: "client list"
  microtasks :: "WSMessage list"
  services :: "nat \<Rightarrow> MinecraftBotService"
  routeId :: "nat \<Rightarrow> jsnum"
  nextService :: nat
  sessions :: "nat \<Rightarrow> session"
  nextSession :: nat
  timers :: "(nat \<times> timer) list"
  nextTimer :: nat
  usedNames :: "string set"
  rnd :: "nat \<Rightarrow> real"
  rndPos :: nat
  now :: int
  createBotError :: "thrown option"
  emitted :: "(nat \<times> emitted) list"

text \<open>\<^verbatim>\<open>this.config\<close>, read now. No code that runs inside a method of the service writes
  to a \<^verbatim>\<open>BotConfig\<close> object, so a method reads it once.\<close>

definition thisConfig :: "nat \<Rightarrow> world \<Rightarrow> BotConfig" where
  "thisConfig a w = objects (storage w) (config (services w a))"

definition setService :: "nat \<Rightarrow> (MinecraftBotService \<Rightarrow> MinecraftBotService) \<Rightarrow> world \<Rightarrow> world" where
  "setService a f w = w\<lparr>services := (services w)(a := f (services w a))\<rparr>"

definition setSession :: "nat \<Rightarrow> (session \<Rightarrow> session) \<Rightarrow> world \<Rightarrow> world" where
  "setSession h f w = w\<lparr>sessions := (sessions w)(h := f (sessions w h))\<rparr>"

definition called :: "nat \<Rightarrow> command list \<Rightarrow> world \<Rightarrow> world" where
  "called h cs w = setSession h (\<lambda>x. x\<lparr>commands := commands x @ cs\<rparr>) w"

definition random :: "world \<Rightarrow> real \<times> world" where
  "random w = (rnd w (rndPos w), w\<lparr>rndPos := rndPos w + 1\<rparr>)"

definition addTimer :: "task \<Rightarrow> real \<Rightarrow> bool \<Rightarrow> world \<Rightarrow> nat \<times> world" where
  "addTimer t d rep w =
     (nextTimer w,
      w\<lparr>timers := AList.update (nextTimer w) \<lparr>task = t, delay = d, repeating = rep\<rparr> (timers w),
        nextTimer := nextTimer w + 1\<rparr>)"

definition clearTimer :: "nat option \<Rightarrow> world \<Rightarrow> world" where
  "clearTimer t w = (case t of None \<Rightarrow> w | Some i \<Rightarrow> w\<lparr>timers := AList.delete i (timers w)\<rparr>)"

subsection \<open>routes.ts: broadcastToClients and the listeners of setupBotServiceEvents\<close>

text \<open>\<^verbatim>\<open>forEach\<close> over the clients, in insertion order; a \<^verbatim>\<open>send\<close> that throws ends it. The
  boolean is false when it threw.\<close>

fun sendAll :: "WSMessage \<Rightarrow> client list \<Rightarrow> bool \<times> client list" where
  "sendAll m [] = (True, [])"
| "sendAll m (c # cs) =
     (if isOpen c then
        (if sendError c then (False, c # cs)
         else (let (ok, cs') = sendAll m cs in (ok, c\<lparr>received := received c @ [m]\<rparr> # cs')))
      else (let (ok, cs') = sendAll m cs in (ok, c # cs')))"

definition broadcastToClients :: "WSMessage \<Rightarrow> world \<Rightarrow> bool \<times> world" where
  "broadcastToClients m w =
     (let (ok, cs) = sendAll m (connectedClients w) in (ok, w\<lparr>connectedClients := cs\<rparr>))"

text \<open>The continuations of the log listener run when the synchronous code has finished;
  each catches what its broadcast throws.\<close>

definition drainMicrotasks :: "world \<Rightarrow> world" where
  "drainMicrotasks w =
     (fold (\<lambda>m v. snd (broadcastToClients m v)) (microtasks w) w)\<lparr>microtasks := []\<rparr>"

definition getStatus :: "nat \<Rightarrow> world \<Rightarrow> BotStatus" where
  "getStatus a w =
     (let s = services w a
      in \<lparr>stId = cfgId (thisConfig a w),
          connected' = (case bot' s of None \<Rightarrow> False | Some h \<Rightarrow> True),
          stUsername = (if actualUsername s = [] then username (thisConfig a w) else actualUsername s),
          uptime = (case startTime s of None \<Rightarrow> 0 | Some t \<Rightarrow> now w - t),
          reconnectCount = reconnectAttempts s,
          wandering = isWandering s,
          serverInfo =
            (case bot' s of
               None \<Rightarrow> None
             | Some h \<Rightarrow>
                 (let x = sessions w h
                  in if game x then
                       Some \<lparr>siVersion = (if version x = [] then ''Unknown'' else version x),
                             siPlayerCount = showInt (int (players x)) @ ''/20'',
                             siPing = (case ping x of None \<Rightarrow> 0 | Some p \<Rightarrow> p)\<rparr>
                     else None))\<rparr>)"

definition isConnected :: "nat \<Rightarrow> world \<Rightarrow> bool" where
  "isConnected a w = (case bot' (services w a) of None \<Rightarrow> False | Some h \<Rightarrow> True)"

definition emitLog :: "nat \<Rightarrow> string \<Rightarrow> string \<Rightarrow> world \<Rightarrow> world" where
  "emitLog a lvl msg w =
     (let (e, st) = createLogEntry \<lparr>inLevel = lvl, inMessage = msg\<rparr> (now w) (storage w)
      in w\<lparr>emitted := emitted w @ [(a, Log lvl msg)],
           storage := st,
           microtasks := microtasks w @ [LogEntryMsg e (routeId w a)]\<rparr>)"

definition emitStatus :: "nat \<Rightarrow> world \<Rightarrow> world" where
  "emitStatus a w =
     (let st = getStatus a w
      in snd (broadcastToClients (BotStatusMsg st (routeId w a))
               (w\<lparr>emitted := emitted w @ [(a, StatusUpdate st)]\<rparr>)))"

text \<open>The listener of "error" broadcasts \<^verbatim>\<open>error.message || 'Unknown bot error'\<close>; when
  the value is \<^verbatim>\<open>null\<close> or \<^verbatim>\<open>undefined\<close> reading the property throws, inside the listener's
  \<^verbatim>\<open>try\<close>, and nothing is broadcast.\<close>

definition emitError :: "nat \<Rightarrow> thrown \<Rightarrow> world \<Rightarrow> world" where
  "emitError a t w =
     (let w1 = w\<lparr>emitted := emitted w @ [(a, ErrorEvent t)]\<rparr>
      in case t of
           ErrorObject err \<Rightarrow>
             snd (broadcastToClients
                    (ErrorMsg (if message err = [] then ''Unknown bot error'' else message err)
                       (routeId w a)) w1)
         | Primitive s nul \<Rightarrow>
             if nul then w1
             else snd (broadcastToClients (ErrorMsg ''Unknown bot error'' (routeId w a)) w1))"

section \<open>services/minecraftBot: MinecraftBotService\<close>

text \<open>Every method takes the address \<open>a\<close> of \<^verbatim>\<open>this\<close>.\<close>

definition allocateUsername :: "world \<Rightarrow> string \<times> world" where
  "allocateUsername w =
     (let (uname, p, used) = generateRandomUsername (rnd w) (rndPos w) (usedNames w)
      in (uname, w\<lparr>rndPos := p, usedNames := used\<rparr>))"

text \<open>\<^verbatim>\<open>mineflayer.createBot\<close> followed by \<^verbatim>\<open>setupBotEvents\<close>: a new handle with the
  handlers of \<open>a\<close> attached.\<close>

definition createBot :: "nat \<Rightarrow> string \<Rightarrow> int \<Rightarrow> string \<Rightarrow> world \<Rightarrow> nat \<times> world" where
  "createBot a hst prt uname w =
     (let h = nextSession w
      in (h, setSession h
               (\<lambda>x. x\<lparr>host := hst, port := prt, loginName := uname, listener := Some a, commands := []\<rparr>)
               (w\<lparr>nextSession := h + 1\<rparr>)))"

definition start :: "nat \<Rightarrow> world \<Rightarrow> world" where
  "start a w =
     (case bot' (services w a) of
        Some h \<Rightarrow> emitLog a ''warn'' ''Bot is already running'' w
      | None \<Rightarrow>
          (let c = thisConfig a w;
               (uname, w1) = (if useRandomNames c then allocateUsername w else (username c, w));
               w2 = setService a (\<lambda>s. s\<lparr>actualUsername := uname\<rparr>) w1;
               w3 = emitLog a ''info'' (''Starting bot with username: '' @ uname) w2;
               w4 = emitLog a ''info''
                      (''Connecting to '' @ serverIp c @ '':'' @ showInt (serverPort c)) w3
           in case createBotError w4 of
                Some t \<Rightarrow>
                  emitError a t
                    (emitLog a ''error'' (''Failed to create bot: '' @ messageOrString t) w4)
              | None \<Rightarrow>
                  (let (h, w5) = createBot a (serverIp c) (serverPort c) uname w4;
                       w6 = setService a (\<lambda>s. s\<lparr>bot' := Some h\<rparr>) w5
                   in setService a (\<lambda>s. s\<lparr>startTime := Some (now w6)\<rparr>) w6)))"

text \<open>The \<^verbatim>\<open>try\<close> of \<^verbatim>\<open>stop\<close>: \<^verbatim>\<open>removeAllListeners()\<close>, then \<^verbatim>\<open>quit()\<close>; the first that throws
  is logged at warn level.\<close>

definition shutdown :: "nat \<Rightarrow> nat \<Rightarrow> world \<Rightarrow> world" where
  "shutdown a h w =
     (case removeError (sessions w h) of
        Some e \<Rightarrow> emitLog a ''warn'' (''Error during bot shutdown: '' @ thrownToString e) w
      | None \<Rightarrow>
          (let w1 = called h [RemoveAllListeners] (setSession h (\<lambda>x. x\<lparr>listener := None\<rparr>) w)
           in case quitError (sessions w1 h) of
                Some e \<Rightarrow> emitLog a ''warn'' (''Error during bot shutdown: '' @ thrownToString e) w1
              | None \<Rightarrow> called h [Quit] w1))"

definition stop :: "nat \<Rightarrow> world \<Rightarrow> world" where
  "stop a w =
     (let s = services w a;
          c = thisConfig a w;
          w1 = setService a (\<lambda>s. s\<lparr>reconnectTimeout := None\<rparr>) (clearTimer (reconnectTimeout s) w);
          w2 = setService a (\<lambda>s. s\<lparr>wanderInterval := None\<rparr>) (clearTimer (wanderInterval s) w1);
          w3 = setService a (\<lambda>s. s\<lparr>chatInterval := None\<rparr>) (clearTimer (chatInterval s) w2);
          w4 = (case bot' s of
                  None \<Rightarrow> w3
                | Some h \<Rightarrow>
                    setService a (\<lambda>s. s\<lparr>bot' := None\<rparr>)
                      (shutdown a h (emitLog a ''info'' ''Stopping bot...'' w3)));
          w5 = (if useRandomNames c \<and> actualUsername s \<noteq> []
                then w4\<lparr>usedNames := releaseUsername (actualUsername s) (usedNames w4)\<rparr>
                else w4);
          w6 = setService a
                 (\<lambda>s. s\<lparr>startTime := None, reconnectAttempts := 0, isWandering := False,
                         actualUsername := []\<rparr>) w5
      in emitStatus a w6)"

definition handleDisconnection :: "nat \<Rightarrow> world \<Rightarrow> world" where
  "handleDisconnection a w =
     (let w1 = (case bot' (services w a) of
                  None \<Rightarrow> w
                | Some h \<Rightarrow>
                    setService a (\<lambda>s. s\<lparr>bot' := None\<rparr>)
                      (case removeError (sessions w h) of
                         Some e \<Rightarrow> w
                       | None \<Rightarrow>
                           called h [RemoveAllListeners]
                             (setSession h (\<lambda>x. x\<lparr>listener := None\<rparr>) w)));
          w2 = emitStatus a w1;
          s = services w2 a;
          c = thisConfig a w2
      in if autoReconnect c \<and> reconnectAttempts s < maxReconnectAttempts c then
           (let w3 = setService a (\<lambda>s. s\<lparr>reconnectAttempts := reconnectAttempts s + 1\<rparr>) w2;
                w4 = emitLog a ''info''
                       (''Auto-reconnect enabled. Attempt '' @ showInt (reconnectAttempts s + 1) @ ''/''
                          @ showInt (maxReconnectAttempts c) @ '' in '' @ showInt (reconnectInterval c)
                          @ '' seconds'') w3;
                (t, w5) = addTimer (Reconnect a) (real_of_int (reconnectInterval c * 1000)) False w4
            in setService a (\<lambda>s. s\<lparr>reconnectTimeout := Some t\<rparr>) w5)
         else if reconnectAttempts s \<ge> maxReconnectAttempts c then
           setService a (\<lambda>s. s\<lparr>reconnectAttempts := 0\<rparr>)
             (emitLog a ''error'' ''Max reconnection attempts reached. Bot stopped.'' w2)
         else w2)"

definition startAIBehaviors :: "nat \<Rightarrow> world \<Rightarrow> world" where
  "startAIBehaviors a w =
     (case bot' (services w a) of
        None \<Rightarrow> w
      | Some h \<Rightarrow>
          (let c = thisConfig a w;
               w1 = (if wanderEnabled c then
                       (let (r, v) = random w;
                            (t, v1) = addTimer (Wander a) (double (15000 + double (r * 10000))) True v
                        in emitLog a ''info'' ''AI wandering enabled''
                             (setService a (\<lambda>s. s\<lparr>wanderInterval := Some t\<rparr>) v1))
                     else w)
           in if chatEnabled c then
                (let (r, v) = random w1;
                     (t, v1) = addTimer (IdleChat a) (double (30000 + double (r * 60000))) True v
                 in emitLog a ''info'' ''AI chat enabled''
                      (setService a (\<lambda>s. s\<lparr>chatInterval := Some t\<rparr>) v1))
              else w1))"

definition directions :: "(real \<times> real) list" where
  "directions = [(1, 0), (- 1, 0), (0, 1), (0, - 1), (1, 1), (- 1, - 1), (1, - 1), (- 1, 1)]"

text \<open>An index outside \<open>directions\<close> gives \<^verbatim>\<open>undefined\<close>, reading \<^verbatim>\<open>direction.x\<close> throws and
  the outer \<^verbatim>\<open>catch\<close> clears \<open>isWandering\<close>.\<close>

definition performWander :: "nat \<Rightarrow> world \<Rightarrow> world" where
  "performWander a w =
     (case bot' (services w a) of
        None \<Rightarrow> w
      | Some h \<Rightarrow>
          (case entity (sessions w h) of
             None \<Rightarrow> w
           | Some (x, y, z) \<Rightarrow>
               (let (r1, v1) = random w;
                    i = randomIndex r1 (length directions);
                    (r2, v2) = random v1;
                    distance = double (3 + double (r2 * 7))
                in if 0 \<le> i \<and> nat i < length directions then
                     (let (dx, dz) = directions ! nat i;
                          v3 = setService a (\<lambda>s. s\<lparr>isWandering := True\<rparr>) v2;
                          v4 = (if moveError (sessions v3 h) then v3
                                else snd (addTimer (ForwardOff a) 2000 False
                                       (called h [LookAt (double (x + double (dx * distance))) y
                                                    (double (z + double (dz * distance))),
                                                  SetControlState ''forward'' True] v3)));
                          v5 = snd (addTimer (WanderDone a) 8000 False v4)
                      in emitStatus a v5)
                   else setService a (\<lambda>s. s\<lparr>isWandering := False\<rparr>) v2)))"

definition casualMessages :: "string list" where
  "casualMessages =
     [''hey'', ''hello'', ''hi there'', ''how is everyone?'', ''nice server'',
      ''anyone building something cool?'', ''what's everyone up to?'', ''love this game'',
      ''beautiful world'', ''anyone need help?'', ''cool builds here'', ''having fun'',
      ''nice day for mining'', ''love the community here'', ''great server'',
      ''anyone want to team up?'', ''this is relaxing'', ''awesome gameplay'']"

definition performRandomChat :: "nat \<Rightarrow> world \<Rightarrow> world" where
  "performRandomChat a w =
     (case bot' (services w a) of
        None \<Rightarrow> w
      | Some h \<Rightarrow>
          (let (r1, v1) = random w
           in if r1 < double (3 / 10) then
                (let (r2, v2) = random v1;
                     msg = pick casualMessages r2
                 in if chatError (sessions v2 h) then v2
                    else emitLog a ''info'' (''Bot said: '' @ msg) (called h [Chat msg] v2))
              else v1))"

text \<open>The handlers that \<^verbatim>\<open>setupBotEvents\<close> registers; \<^verbatim>\<open>this.bot\<close> is read when the event
  arrives.\<close>

definition errorMessageOf :: "js_error \<Rightarrow> string" where
  "errorMessageOf err =
     (if code err = Some ''ECONNRESET'' then
        ''Connection reset by server - this usually happens when the server is offline or restarting''
      else if code err = Some ''ENOTFOUND'' then
        ''Server not found - please check the server IP address''
      else if code err = Some ''ECONNREFUSED'' then
        ''Connection refused - the server may be offline or the port may be incorrect''
      else if code err = Some ''ETIMEDOUT'' then
        ''Connection timed out - the server may be slow to respond or unreachable''
      else ''Bot error: '' @ message err)"

definition botUsername :: "nat \<Rightarrow> world \<Rightarrow> string option" where
  "botUsername a w =
     (case bot' (services w a) of None \<Rightarrow> None | Some h \<Rightarrow> Some (sessUsername (sessions w h)))"

fun onEvent :: "nat \<Rightarrow> session_event \<Rightarrow> world \<Rightarrow> world" where
  "onEvent a Login w =
     emitStatus a
       (setService a (\<lambda>s. s\<lparr>reconnectAttempts := 0\<rparr>)
          (emitLog a ''info''
             (''Bot logged in as '' @ (case botUsername a w of None \<Rightarrow> ''undefined'' | Some u \<Rightarrow> u)) w))"
| "onEvent a Spawn w =
     startAIBehaviors a (emitStatus a (emitLog a ''info'' ''Bot spawned in the world'' w))"
| "onEvent a (ChatEv u m) w =
     (if botUsername a w = Some u then w
      else emitLog a ''info'' (''<'' @ u @ ''> '' @ m) w)"
| "onEvent a (ErrorEv err) w =
     handleDisconnection a
       (emitError a (ErrorObject err) (emitLog a ''error'' (errorMessageOf err) w))"
| "onEvent a (Kicked reason) w =
     handleDisconnection a (emitLog a ''warn'' (''Bot was kicked: '' @ reason) w)"
| "onEvent a End w = handleDisconnection a (emitLog a ''info'' ''Bot disconnected'' w)"
| "onEvent a Death w = emitLog a ''info'' ''Bot died and will respawn'' w"
| "onEvent a Health w =
     (case bot' (services w a) of
        None \<Rightarrow> w
      | Some h \<Rightarrow>
          if health (sessions w h) \<le> 5
          then emitLog a ''warn'' (''Bot health is low: '' @ showInt (health (sessions w h))) w
          else w)"

fun runTask :: "task \<Rightarrow> world \<Rightarrow> world" where
  "runTask (Reconnect a) w = start a w"
| "runTask (Wander a) w = performWander a w"
| "runTask (IdleChat a) w = performRandomChat a w"
| "runTask (ForwardOff a) w =
     (case bot' (services w a) of
        None \<Rightarrow> w
      | Some h \<Rightarrow> called h [SetControlState ''forward'' False] w)"
| "runTask (WanderDone a) w = emitStatus a (setService a (\<lambda>s. s\<lparr>isWandering := False\<rparr>) w)"

section \<open>routes.ts: the registry and its routes\<close>

datatype reply = Reply nat string | ReplyConfig BotConfig

text \<open>
  Each route handler runs to its end before any other event is handled: every promise it
  awaits is already resolved. The log broadcasts queued by \<^verbatim>\<open>start()\<close> or \<^verbatim>\<open>stop()\<close> run
  at the \<^verbatim>\<open>await\<close> that follows. What can throw inside a \<^verbatim>\<open>try\<close> is a socket's \<^verbatim>\<open>send\<close>.
\<close>

definition startRoute :: "jsnum \<Rightarrow> world \<Rightarrow> reply \<times> world" where
  "startRoute botId w =
     (case getBotConfig (Some botId) (storage w) of
        None \<Rightarrow> (Reply 400 ''Bot configuration not found'', w)
      | Some c \<Rightarrow>
          if (case map_of (botServices w) botId of None \<Rightarrow> False | Some b \<Rightarrow> isConnected b w)
          then (Reply 400 ''Bot is already running'', w)
          else
            (let a = nextService w;
                 w1 = w\<lparr>nextService := a + 1,
                        services := (services w)(a := newService c),
                        routeId := (routeId w)(a := botId),
                        botServices := AList.update botId a (botServices w)\<rparr>;
                 w2 = drainMicrotasks (start a w1);
                 w3 = w2\<lparr>storage := updateBotStatus botId True (storage w2)\<rparr>;
                 (ok, w4) = broadcastToClients (BotsUpdate (getAllBotConfigs (storage w3))) w3
             in if ok then (Reply 200 ''Bot start initiated'', w4)
                else (Reply 500 ''Failed to start bot'', w4)))"

definition stopRoute :: "jsnum \<Rightarrow> world \<Rightarrow> reply \<times> world" where
  "stopRoute botId w =
     (case map_of (botServices w) botId of
        None \<Rightarrow> (Reply 400 ''Bot not found or not running'', w)
      | Some a \<Rightarrow>
          (let w1 = drainMicrotasks (stop a w);
               w2 = w1\<lparr>botServices := AList.delete botId (botServices w1)\<rparr>;
               w3 = w2\<lparr>storage := updateBotStatus botId False (storage w2)\<rparr>;
               (ok, w4) = broadcastToClients (BotsUpdate (getAllBotConfigs (storage w3))) w3
           in if ok then (Reply 200 ''Bot stopped'', w4)
              else
                (case map_of (botServices w4) botId of
                   None \<Rightarrow> (Reply 200 ''Bot force stopped'', w4)
                 | Some b \<Rightarrow>
                     (let w5 = drainMicrotasks (stop b w4);
                          w6 = w5\<lparr>botServices := AList.delete botId (botServices w5)\<rparr>
                      in (Reply 200 ''Bot force stopped'',
                          w6\<lparr>storage := updateBotStatus botId False (storage w6)\<rparr>)))))"

text \<open>The body of a configuration request is \<open>None\<close> when the schema rejects it.\<close>

definition putConfigRoute :: "jsnum option \<Rightarrow> InsertBotConfig option \<Rightarrow> world \<Rightarrow> reply \<times> world" where
  "putConfigRoute ido body w =
     (case body of
        None \<Rightarrow> (Reply 400 ''Invalid configuration'', w)
      | Some c \<Rightarrow>
          (case updateBotConfig c ido (storage w) of
             Inl e \<Rightarrow> (Reply 500 ''Failed to update configuration'', w)
           | Inr (updated, st) \<Rightarrow>
               (ReplyConfig (objects st updated),
                (case map_of (botServices w) (Num (cfgId (objects st updated))) of
                   None \<Rightarrow> w\<lparr>storage := st\<rparr>
                 | Some a \<Rightarrow> setService a (\<lambda>s. s\<lparr>config := updated\<rparr>) (w\<lparr>storage := st\<rparr>)))))"

definition postConfigRoute :: "InsertBotConfig option \<Rightarrow> world \<Rightarrow> reply \<times> world" where
  "postConfigRoute body w =
     (case body of
        None \<Rightarrow> (Reply 400 ''Invalid configuration'', w)
      | Some c \<Rightarrow>
          (let (newConfig, st) = createBotConfig c (storage w);
               (ok, w1) = broadcastToClients (BotsUpdate (getAllBotConfigs st)) (w\<lparr>storage := st\<rparr>)
           in if ok then (ReplyConfig (objects st newConfig), w1)
              else (Reply 500 ''Failed to create configuration'', w1)))"

section \<open>The server as a transition system\<close>

text \<open>
  One input is one turn of the event loop: a request, an event of a session delivered to
  the handlers attached to it (dropped when none is), a pending timer that fires (a
  timeout is removed before its callback runs, an interval stays), or time passing. Timers
  fire in any order: the delay is recorded, not enforced. Outside the model: an "error"
  event on a handle that has lost its handlers (Node throws it), and sockets that join or
  leave \<^verbatim>\<open>connectedClients\<close>.
\<close>

definition onSessionEvent :: "nat \<Rightarrow> session_event \<Rightarrow> world \<Rightarrow> world" where
  "onSessionEvent h ev w =
     (if h < nextSession w then
        (case listener (sessions w h) of
           None \<Rightarrow> w
         | Some a \<Rightarrow> drainMicrotasks (onEvent a ev w))
      else w)"

definition fireTimer :: "nat \<Rightarrow> world \<Rightarrow> world" where
  "fireTimer i w =
     (case map_of (timers w) i of
        None \<Rightarrow> w
      | Some t \<Rightarrow>
          drainMicrotasks
            (runTask (task t)
               (if repeating t then w else w\<lparr>timers := AList.delete i (timers w)\<rparr>)))"

datatype input =
    StartReq jsnum
  | StopReq jsnum
  | PutConfig "jsnum option" "InsertBotConfig option"
  | PostConfig "InsertBotConfig option"
  | SessionEvent nat session_event
  | TimerFired nat
  | Elapse int

fun step :: "input \<Rightarrow> world \<Rightarrow> world" where
  "step (StartReq i) w = snd (startRoute i w)"
| "step (StopReq i) w = snd (stopRoute i w)"
| "step (PutConfig ido body) w = snd (putConfigRoute ido body w)"
| "step (PostConfig body) w = snd (postConfigRoute body w)"
| "step (SessionEvent h ev) w = onSessionEvent h ev w"
| "step (TimerFired i) w = fireTimer i w"
| "step (Elapse d) w = w\<lparr>now := now w + d\<rparr>"

definition run :: "input list \<Rightarrow> world \<Rightarrow> world" where
  "run ins w = fold step ins w"

text \<open>The server at start-up: no service, no session, no timer, no client; \<open>r\<close> is what
  \<^verbatim>\<open>Math.random()\<close> will return, \<open>x\<close> what the library shows of a session.\<close>

definition quietSession :: session where
  "quietSession =
     \<lparr>host = [], port = 0, loginName = [], listener = None, commands = [], sessUsername = [],
      game = False, version = [], players = 0, ping = None, health = 20, entity = None,
      removeError = None, quitError = None, moveError = False, chatError = False\<rparr>"

definition initialWorld :: "(nat \<Rightarrow> real) \<Rightarrow> session \<Rightarrow> world" where
  "initialWorld r x =
     \<lparr>storage = newMemStorage, botServices = [], connectedClients = [], microtasks = [],
      services = (\<lambda>a. newService 0), routeId = (\<lambda>a. NaN),
      nextService = 0, sessions = (\<lambda>h. x), nextSession = 0, timers = [], nextTimer = 0,
      usedNames = {}, rnd = r, rndPos = 0, now = 0, createBotError = None, emitted = []\<rparr>"

section \<open>Observations used to state the properties\<close>

text \<open>The session handles held, at this instant, by the services created for the id \<open>i\<close>
  (registered or not), by address of the service.\<close>

definition liveSessions :: "jsnum \<Rightarrow> world \<Rightarrow> nat list" where
  "liveSessions i w =
     concat (map (\<lambda>a. if routeId w a = i
                       then (case bot' (services w a) of None \<Rightarrow> [] | Some h \<Rightarrow> [h])
                       else [])
                 [0..<nextService w])"

text \<open>The tasks of the timers that are pending.\<close>

definition pendingTasks :: "world \<Rightarrow> task list" where
  "pendingTasks w = map (\<lambda>(i, t). task t) (timers w)"

text \<open>The log entries that the service at \<open>a\<close> has emitted, as (level, message).\<close>

definition logsOf :: "nat \<Rightarrow> world \<Rightarrow> (string \<times> string) list" where
  "logsOf a w =
     concat (map (\<lambda>(b, e). case e of Log lvl msg \<Rightarrow> (if b = a then [(lvl, msg)] else [])
                                    | StatusUpdate st \<Rightarrow> []
                                    | ErrorEvent err \<Rightarrow> [])
                 (emitted w))"

text \<open>The configuration that \<^verbatim>\<open>createBotConfig\<close> returns, and the one stored under an id.\<close>

definition created :: "InsertBotConfig \<Rightarrow> MemStorage \<Rightarrow> BotConfig" where
  "created c st = objects (snd (createBotConfig c st)) (fst (createBotConfig c st))"

definition stored :: "jsnum \<Rightarrow> MemStorage \<Rightarrow> BotConfig option" where
  "stored i st = map_option (objects st) (getBotConfig (Some i) st)"

section \<open>Concrete inputs\<close>

text \<open>\<open>n\<close> successive calls of \<^verbatim>\<open>generateRandomUsername\<close> with no release in between.\<close>

fun allocateMany :: "nat \<Rightarrow> (nat \<Rightarrow> real) \<Rightarrow> nat \<Rightarrow> string set \<Rightarrow> string list \<times> nat \<times> string set" where
  "allocateMany 0 r p used = ([], p, used)"
| "allocateMany (Suc n) r p used =
     (let (uname, p', used') = generateRandomUsername r p used;
          (rest, p'', used'') = allocateMany n r p' used'
      in (uname # rest, p'', used''))"

text \<open>A random stream that starts with the values of a list and goes on with zeroes.\<close>

definition streamOf :: "real list \<Rightarrow> nat \<Rightarrow> real" where
  "streamOf xs i = (if i < length xs then xs ! i else 0)"

definition onlyAutoReconnectOff :: InsertBotConfig where
  "onlyAutoReconnectOff =
     \<lparr>inUsername = None, inServerIp = None, inServerPort = None, inAutoReconnect = Some False,
      inReconnectInterval = None, inMaxReconnectAttempts = None, inLogLevel = None,
      inWanderEnabled = None, inChatEnabled = None, inUseRandomNames = None, inIsActive = None\<rparr>"

definition zeroesAndEmptyName :: InsertBotConfig where
  "zeroesAndEmptyName =
     \<lparr>inUsername = Some [], inServerIp = None, inServerPort = Some 0, inAutoReconnect = None,
      inReconnectInterval = Some 0, inMaxReconnectAttempts = Some 0, inLogLevel = None,
      inWanderEnabled = None, inChatEnabled = None, inUseRandomNames = None, inIsActive = None\<rparr>"

definition randomWanderer :: InsertBotConfig where
  "randomWanderer =
     \<lparr>inUsername = None, inServerIp = None, inServerPort = None, inAutoReconnect = None,
      inReconnectInterval = None, inMaxReconnectAttempts = None, inLogLevel = None,
      inWanderEnabled = Some True, inChatEnabled = Some True, inUseRandomNames = Some True,
      inIsActive = None\<rparr>"

definition oneAttempt :: InsertBotConfig where
  "oneAttempt =
     \<lparr>inUsername = None, inServerIp = None, inServerPort = None, inAutoReconnect = None,
      inReconnectInterval = None, inMaxReconnectAttempts = Some 1, inLogLevel = None,
      inWanderEnabled = None, inChatEnabled = None, inUseRandomNames = None, inIsActive = None\<rparr>"

text \<open>A session whose \<^verbatim>\<open>quit()\<close> throws, one whose \<^verbatim>\<open>removeAllListeners()\<close> throws, and one
  whose \<^verbatim>\<open>quit()\<close> throws and that has an entity, at the origin.\<close>

definition socketClosed :: thrown where
  "socketClosed = ErrorObject (JsError ''Error'' ''socket closed'' None)"

definition failingQuit :: session where
  "failingQuit = quietSession\<lparr>quitError := Some socketClosed\<rparr>"

definition failingRemove :: session where
  "failingRemove = quietSession\<lparr>removeError := Some socketClosed\<rparr>"

definition failingQuitInWorld :: session where
  "failingQuitInWorld = failingQuit\<lparr>entity := Some (0, 0, 0)\<rparr>"

definition wanderer :: InsertBotConfig where
  "wanderer =
     \<lparr>inUsername = None, inServerIp = None, inServerPort = None, inAutoReconnect = None,
      inReconnectInterval = None, inMaxReconnectAttempts = None, inLogLevel = None,
      inWanderEnabled = Some True, inChatEnabled = Some True, inUseRandomNames = None,
      inIsActive = None\<rparr>"

text \<open>Runs of the server, each from start-up. \<^verbatim>\<open>Math.random()\<close> returns 0 throughout, but
  where a stream is given.\<close>

definition freshServer :: world where
  "freshServer = initialWorld (\<lambda>i. 0) quietSession"

text \<open>The default bot is started.\<close>

definition started :: world where
  "started = run [StartReq (Num 1)] freshServer"

text \<open>Its session ends; while the reconnect timeout is pending it is started again; then
  the timeout fires.\<close>

definition startedTwice :: world where
  "startedTwice = run [SessionEvent 0 End, StartReq (Num 1), TimerFired 0] started"

text \<open>Its session ends, the reconnect timeout fires, and the new session spawns, or logs in.\<close>

definition spawnedAfterReconnect :: world where
  "spawnedAfterReconnect = run [SessionEvent 0 End, TimerFired 0, SessionEvent 1 Spawn] started"

definition loggedInAfterReconnect :: world where
  "loggedInAfterReconnect = run [SessionEvent 0 End, TimerFired 0, SessionEvent 1 Login] started"

text \<open>A bot limited to one reconnect attempt, after that attempt.\<close>

definition reconnectedOnce :: world where
  "reconnectedOnce =
     run [PutConfig (Some (Num 1)) (Some oneAttempt), StartReq (Num 1), SessionEvent 0 End,
          TimerFired 0] freshServer"

text \<open>Bots on sessions whose \<^verbatim>\<open>quit()\<close> throws: the default bot started, and a bot with
  random names, wandering and chat, started and spawned.\<close>

definition startedFailingQuit :: world where
  "startedFailingQuit = run [StartReq (Num 1)] (initialWorld (\<lambda>i. 0) failingQuit)"

definition spawnedFailingQuit :: world where
  "spawnedFailingQuit =
     run [PutConfig (Some (Num 1)) (Some randomWanderer), StartReq (Num 1), SessionEvent 0 Spawn]
       (initialWorld (\<lambda>i. 0) failingQuit)"

text \<open>A bot with random names is started; then its session ends and the reconnect
  timeout fires.\<close>

definition startedRandom :: world where
  "startedRandom =
     run [PutConfig (Some (Num 1)) (Some randomWanderer), StartReq (Num 1)]
       (initialWorld (streamOf [0, 0, 0, 1 / 2, 1 / 2, 0, 0, 1 / 2]) quietSession)"

definition reconnectedRandom :: world where
  "reconnectedRandom = run [SessionEvent 0 End, TimerFired 0] startedRandom"

text \<open>A bot with wandering and chat is started and spawns, and its session ends; then the
  reconnect timeout fires, the new session spawns, and the bot is stopped.\<close>

definition disconnectedWanderer :: world where
  "disconnectedWanderer =
     run [PutConfig (Some (Num 1)) (Some wanderer), StartReq (Num 1), SessionEvent 0 Spawn,
          SessionEvent 0 End] freshServer"

definition stoppedWanderer :: world where
  "stoppedWanderer = run [TimerFired 2, SessionEvent 1 Spawn, StopReq (Num 1)] disconnectedWanderer"

text \<open>A bot with wandering and chat, on a session whose \<^verbatim>\<open>quit()\<close> throws, is started and
  spawns; its wander interval fires once; then the bot is stopped; then the timeout that
  ends the wander fires.\<close>

definition stoppedMidWander :: world where
  "stoppedMidWander =
     run [PutConfig (Some (Num 1)) (Some wanderer), StartReq (Num 1), SessionEvent 0 Spawn,
          TimerFired 0, StopReq (Num 1)]
       (initialWorld (\<lambda>i. 0) failingQuitInWorld)"

definition wanderEndedAfterStop :: world where
  "wanderEndedAfterStop = run [TimerFired 3] stoppedMidWander"

text \<open>The default bot, on a session whose \<^verbatim>\<open>removeAllListeners()\<close> throws, is started and
  stopped; then the session ends and the reconnect timeout fires.\<close>

definition stoppedFailingRemove :: world where
  "stoppedFailingRemove =
     run [StartReq (Num 1), StopReq (Num 1)] (initialWorld (\<lambda>i. 0) failingRemove)"

definition revivedAfterStop :: world where
  "revivedAfterStop = run [SessionEvent 0 End, TimerFired 0] stoppedFailingRemove"

text \<open>A bot with random names, on sessions whose \<^verbatim>\<open>quit()\<close> throws, is started; its session
  ends and the reconnect timeout fires; then the bot is stopped.\<close>

definition stoppedAfterRename :: world where
  "stoppedAfterRename =
     run [PutConfig (Some (Num 1)) (Some randomWanderer), StartReq (Num 1), SessionEvent 0 End,
          TimerFired 0, StopReq (Num 1)]
       (initialWorld (\<lambda>i. 0) failingQuit)"

section \<open>Properties of the rounding\<close>

lemma normalize_invariant:
  "0 < m \<Longrightarrow> 0 < s \<Longrightarrow>
   2 ^ 52 \<le> fst (normalize m s) \<and> fst (normalize m s) < 2 ^ 53 \<and> 0 < snd (normalize m s)
   \<and> fst (normalize m s) * snd (normalize m s) = m * s"
proof (induction m s rule: normalize.induct)
  case (1 m s)
  show ?case
  proof (cases "2 ^ 53 \<le> m")
    case True
    then show ?thesis using 1 by (subst (1 2 3 4 5) normalize.simps) simp
  next
    case False
    show ?thesis
    proof (cases "m < 2 ^ 52")
      case True
      then show ?thesis using 1 False by (subst (1 2 3 4 5) normalize.simps) simp
    next
      case f: False
      then show ?thesis using 1 False by (subst (1 2 3 4 5) normalize.simps) simp
    qed
  qed
qed

lemma roundHalfEven_bounds:
  "q - 1 / 2 \<le> of_int (roundHalfEven q) \<and> of_int (roundHalfEven q) \<le> q + 1 / 2"
  unfolding roundHalfEven_def Let_def by (auto) linarith+

text \<open>Rounding keeps the sign and moves a number by at most one part in \<open>2^53\<close>.\<close>

lemma double_zero: "double 0 = 0"
  by (simp add: double_def)

lemma double_positive:
  assumes "0 < x"
  shows "0 < double x" and "double x \<le> x + x / 2 ^ 53"
proof -
  obtain m s where n: "normalize x 1 = (m, s)" by (cases "normalize x 1")
  have inv: "2 ^ 52 \<le> m" "m < 2 ^ 53" "0 < s" "m * s = x"
    using normalize_invariant [of x 1] assms n by simp_all
  have r: "m - 1 / 2 \<le> of_int (roundHalfEven m)" "of_int (roundHalfEven m) \<le> m + 1 / 2"
    using roundHalfEven_bounds [of m] by simp_all
  have d: "double x = of_int (roundHalfEven m) * s"
    using assms n by (simp add: double_def)
  have "(1::real) \<le> 2 ^ 52" by simp
  then have "0 < real_of_int (roundHalfEven m)" using r(1) inv(1) by linarith
  then show "0 < double x" using d inv(3) by simp
  have "of_int (roundHalfEven m) * s \<le> (m + 1 / 2) * s"
    using r(2) inv(3) by (intro mult_right_mono) simp_all
  also have "\<dots> = x + s / 2" using inv(4) by (simp add: algebra_simps)
  also have "s / 2 \<le> x / 2 ^ 53"
  proof -
    have "s * 2 ^ 52 \<le> s * m" using inv(1) inv(3) by (intro mult_left_mono) simp_all
    then have "s * 2 ^ 52 \<le> x" using inv(4) by (simp add: mult.commute)
    then show ?thesis by (simp add: field_simps)
  qed
  finally show "double x \<le> x + x / 2 ^ 53" using d by simp
qed

text \<open>The doubles that the runs below meet: small integers are doubles, and the literals
  \<^verbatim>\<open>0.1\<close>, \<^verbatim>\<open>0.3\<close>, \<^verbatim>\<open>0.4\<close> and \<^verbatim>\<open>0.7\<close> are these.\<close>

lemma double_integers:
  "double 1 = 1" "double 3 = 3" "double 15000 = 15000" "double 30000 = 30000"
  by (simp_all add: double_def normalize.simps roundHalfEven_def Let_def)

lemma double_literals:
  "double (1 / 10) = 3602879701896397 / 36028797018963968"
  "double (3 / 10) = 5404319552844595 / 18014398509481984"
  "double (4 / 10) = 3602879701896397 / 9007199254740992"
  "double (2 / 5) = 3602879701896397 / 9007199254740992"
  "double (7 / 10) = 3152519739159347 / 4503599627370496"
  by (simp_all add: double_def normalize.simps roundHalfEven_def Let_def)

lemmas double_values = double_zero double_integers double_literals

section \<open>Properties of the storage\<close>

lemma orNum_cases:
  "orNum None d = d" "orNum (Some 0) d = d" "n \<noteq> 0 \<Longrightarrow> orNum (Some n) d = n"
  by (simp_all add: orNum_def)

lemma orStr_cases:
  "orStr None d = d" "orStr (Some []) d = d" "s \<noteq> [] \<Longrightarrow> orStr (Some s) d = s"
  by (simp_all add: orStr_def)

lemma orNum_nonzero: "d \<noteq> 0 \<Longrightarrow> orNum a d \<noteq> 0"
  by (simp add: orNum_def split: option.splits)

lemma orStr_nonempty: "d \<noteq> [] \<Longrightarrow> orStr a d \<noteq> []"
  by (simp add: orStr_def split: option.splits)

lemma map_of_update_same: "map_of (AList.update k v al) k = Some v"
  by (simp add: update_conv')

lemma created_fields:
  shows "cfgId (created c st) = currentBotId st + 1"
    and "username (created c st) = orStr (inUsername c) ''MinecraftBot''"
    and "serverIp (created c st) = orStr (inServerIp c) ''example.com''"
    and "serverPort (created c st) = orNum (inServerPort c) 12345"
    and "autoReconnect (created c st) = nullish (inAutoReconnect c) True"
    and "reconnectInterval (created c st) = orNum (inReconnectInterval c) 30"
    and "maxReconnectAttempts (created c st) = orNum (inMaxReconnectAttempts c) 10"
    and "logLevel (created c st) = orStr (inLogLevel c) ''info''"
    and "wanderEnabled (created c st) = nullish (inWanderEnabled c) False"
    and "chatEnabled (created c st) = nullish (inChatEnabled c) False"
    and "useRandomNames (created c st) = nullish (inUseRandomNames c) False"
    and "isActive (created c st) = nullish (inIsActive c) False"
  by (simp_all add: created_def createBotConfig_def Let_def)

lemma created_is_stored:
  "map_option (objects (snd (createBotConfig c st)))
     (map_of (botConfigs (snd (createBotConfig c st))) (currentBotId st + 1))
   = Some (created c st)"
  by (simp add: created_def createBotConfig_def Let_def map_of_update_same)

text \<open>
  C10, as the code has it. For \<open>username\<close>, \<open>serverIp\<close>, \<open>serverPort\<close>, \<open>reconnectInterval\<close>,
  \<open>maxReconnectAttempts\<close> and \<open>logLevel\<close>, \<^verbatim>\<open>createBotConfig\<close> puts the built-in default in the
  place of an absent value and of a falsy supplied one (0, the empty string), and keeps
  any other supplied value: a \<open>serverPort\<close> of 0 becomes 12345, a \<open>reconnectInterval\<close> of 0
  becomes 30, a \<open>maxReconnectAttempts\<close> of 0 becomes 10, an empty \<open>username\<close> becomes
  "MinecraftBot". For the boolean fields it puts the default in the place of an absent
  value only: a supplied boolean is kept, \<open>false\<close> too. So the configuration that
  \<^verbatim>\<open>createBotConfig\<close> makes, which is the one it puts in the map under the new id, holds
  neither 0 in \<open>serverPort\<close>, \<open>reconnectInterval\<close> or \<open>maxReconnectAttempts\<close> nor an empty
  \<open>username\<close>.
\<close>

theorem createBotConfig_defaults:
  "(inServerPort c = None \<or> inServerPort c = Some 0 \<longrightarrow> serverPort (created c st) = 12345)
   \<and> (\<forall>n. inServerPort c = Some n \<and> n \<noteq> 0 \<longrightarrow> serverPort (created c st) = n)
   \<and> (inReconnectInterval c = None \<or> inReconnectInterval c = Some 0
        \<longrightarrow> reconnectInterval (created c st) = 30)
   \<and> (\<forall>n. inReconnectInterval c = Some n \<and> n \<noteq> 0 \<longrightarrow> reconnectInterval (created c st) = n)
   \<and> (inMaxReconnectAttempts c = None \<or> inMaxReconnectAttempts c = Some 0
        \<longrightarrow> maxReconnectAttempts (created c st) = 10)
   \<and> (\<forall>n. inMaxReconnectAttempts c = Some n \<and> n \<noteq> 0 \<longrightarrow> maxReconnectAttempts (created c st) = n)
   \<and> (inUsername c = None \<or> inUsername c = Some [] \<longrightarrow> username (created c st) = ''MinecraftBot'')
   \<and> (\<forall>s. inUsername c = Some s \<and> s \<noteq> [] \<longrightarrow> username (created c st) = s)
   \<and> (inServerIp c = None \<or> inServerIp c = Some [] \<longrightarrow> serverIp (created c st) = ''example.com'')
   \<and> (\<forall>s. inServerIp c = Some s \<and> s \<noteq> [] \<longrightarrow> serverIp (created c st) = s)
   \<and> (inLogLevel c = None \<or> inLogLevel c = Some [] \<longrightarrow> logLevel (created c st) = ''info'')
   \<and> (\<forall>s. inLogLevel c = Some s \<and> s \<noteq> [] \<longrightarrow> logLevel (created c st) = s)
   \<and> (inAutoReconnect c = None \<longrightarrow> autoReconnect (created c st) = True)
   \<and> (\<forall>b. inAutoReconnect c = Some b \<longrightarrow> autoReconnect (created c st) = b)
   \<and> (inWanderEnabled c = None \<longrightarrow> wanderEnabled (created c st) = False)
   \<and> (\<forall>b. inWanderEnabled c = Some b \<longrightarrow> wanderEnabled (created c st) = b)
   \<and> (inChatEnabled c = None \<longrightarrow> chatEnabled (created c st) = False)
   \<and> (\<forall>b. inChatEnabled c = Some b \<longrightarrow> chatEnabled (created c st) = b)
   \<and> (inUseRandomNames c = None \<longrightarrow> useRandomNames (created c st) = False)
   \<and> (\<forall>b. inUseRandomNames c = Some b \<longrightarrow> useRandomNames (created c st) = b)
   \<and> (inIsActive c = None \<longrightarrow> isActive (created c st) = False)
   \<and> (\<forall>b. inIsActive c = Some b \<longrightarrow> isActive (created c st) = b)
   \<and> serverPort (created c st) \<noteq> 0
   \<and> reconnectInterval (created c st) \<noteq> 0
   \<and> maxReconnectAttempts (created c st) \<noteq> 0
   \<and> username (created c st) \<noteq> []
   \<and> cfgId (created c st) = currentBotId st + 1
   \<and> map_option (objects (snd (createBotConfig c st)))
         (map_of (botConfigs (snd (createBotConfig c st))) (currentBotId st + 1))
       = Some (created c st)"
  by (auto simp add: created_fields created_is_stored orNum_cases orStr_cases nullish_def
      orNum_nonzero orStr_nonempty)

theorem createBotConfig_defaults_witness:
  "inServerPort zeroesAndEmptyName = Some 0
   \<and> inReconnectInterval zeroesAndEmptyName = Some 0
   \<and> inMaxReconnectAttempts zeroesAndEmptyName = Some 0
   \<and> inUsername zeroesAndEmptyName = Some []
   \<and> inAutoReconnect onlyAutoReconnectOff = Some False
   \<and> serverPort (created zeroesAndEmptyName newMemStorage) = 12345
   \<and> reconnectInterval (created zeroesAndEmptyName newMemStorage) = 30
   \<and> maxReconnectAttempts (created zeroesAndEmptyName newMemStorage) = 10
   \<and> username (created zeroesAndEmptyName newMemStorage) = ''MinecraftBot''
   \<and> autoReconnect (created onlyAutoReconnectOff newMemStorage) = False
   \<and> map_option (objects (snd (createBotConfig zeroesAndEmptyName newMemStorage)))
         (map_of (botConfigs (snd (createBotConfig zeroesAndEmptyName newMemStorage))) 2)
       = Some (created zeroesAndEmptyName newMemStorage)"
  using createBotConfig_defaults [of zeroesAndEmptyName newMemStorage]
    createBotConfig_defaults [of onlyAutoReconnectOff newMemStorage]
  by (auto simp add: zeroesAndEmptyName_def onlyAutoReconnectOff_def newMemStorage_def)

text \<open>
  C10 as stated fails twice. A supplied \<open>autoReconnect = false\<close> is falsy and is not
  replaced by its default \<open>true\<close> (the default is what an absent field gives). And a stored
  configuration can hold 0 and an empty username: \<^verbatim>\<open>updateBotConfig\<close> applies no default, and
  after it the configuration stored under id 1 has port 0 and no name.
\<close>

theorem createBotConfig_falsy_counterexample:
  "autoReconnect (created onlyAutoReconnectOff newMemStorage) = False
   \<and> autoReconnect (created (onlyAutoReconnectOff\<lparr>inAutoReconnect := None\<rparr>) newMemStorage) = True
   \<and> map_option serverPort
         (stored (Num 1) (snd (projr (updateBotConfig zeroesAndEmptyName (Some (Num 1)) newMemStorage))))
       = Some 0
   \<and> map_option username
         (stored (Num 1) (snd (projr (updateBotConfig zeroesAndEmptyName (Some (Num 1)) newMemStorage))))
       = Some []"
  by (simp add: created_def stored_def createBotConfig_def updateBotConfig_def getBotConfig_def
      truthy_def mapGet_def spread_def newMemStorage_def defaultBotConfig_def onlyAutoReconnectOff_def
      zeroesAndEmptyName_def nullish_def orStr_def orNum_def Let_def)

section \<open>Properties of the name allocator\<close>

lemma candidate_zero: "candidate (\<lambda>i. 0) p = (''AlexGaming_'', p + 5)"
  by (simp add: candidate_def pick_def randomIndex_def firstNames_def suffixes_def double_values)

lemma showInt_zero: "showInt 0 = ''0''"
  by (simp add: showInt_def showNat.simps digitChar_def)

lemma generateLoop_zero_collides:
  "''AlexGaming_'' \<in> used \<Longrightarrow> attempts \<le> 100 \<Longrightarrow>
   generateLoop (\<lambda>i. 0) p attempts used
     = (''Player0'', p + 5 * (100 - attempts) + 1, insert ''Player0'' used)"
proof (induction "100 - attempts" arbitrary: attempts p)
  case 0
  then have "attempts = 100" by simp
  then show ?case
    by (subst generateLoop.simps) (simp add: randomIndex_def showInt_zero double_zero Let_def)
next
  case (Suc k)
  then have lt: "attempts < 100" and k: "k = 100 - (attempts + 1)" by simp_all
  have "generateLoop (\<lambda>i. 0) p attempts used = generateLoop (\<lambda>i. 0) (p + 5) (attempts + 1) used"
    using lt Suc.prems(1) by (subst generateLoop.simps) (simp add: candidate_zero)
  also have "\<dots> = (''Player0'', (p + 5) + 5 * (100 - (attempts + 1)) + 1, insert ''Player0'' used)"
    using Suc.hyps(1) [OF k Suc.prems(1)] lt by simp
  finally show ?case using lt by simp
qed

lemma generateRandomUsername_zero_first:
  "generateRandomUsername (\<lambda>i. 0) p {} = (''AlexGaming_'', p + 5, {''AlexGaming_''})"
  unfolding generateRandomUsername_def
  by (subst generateLoop.simps) (simp add: candidate_zero)

lemma generateRandomUsername_zero_later:
  "''AlexGaming_'' \<in> used \<Longrightarrow>
   generateRandomUsername (\<lambda>i. 0) p used = (''Player0'', p + 501, insert ''Player0'' used)"
  unfolding generateRandomUsername_def by (simp add: generateLoop_zero_collides)

text \<open>
  C6 at three calls with no release, when \<^verbatim>\<open>Math.random()\<close> keeps returning 0: the first
  call takes "AlexGaming_", the second collides a hundred times and falls back to
  "Player0", and so does the third: the fallback is added to \<^verbatim>\<open>usedNames\<close> without being
  looked up in it, and two of the three names are the same.
\<close>

theorem allocate_fallback_repeats:
  "fst (allocateMany 3 (\<lambda>i. 0) 0 {}) = [''AlexGaming_'', ''Player0'', ''Player0'']"
  by (simp add: numeral_3_eq_3 generateRandomUsername_zero_first generateRandomUsername_zero_later)

text \<open>
  What does hold of C6: every name returned has at most 16 characters, as long as
  \<^verbatim>\<open>Math.random()\<close> stays in \<open>[0, 1)\<close>, and a name returned from inside the loop is not among
  the names in use. Only the fallback escapes the check.
\<close>

lemma showNat_length: "n < 10 ^ Suc k \<Longrightarrow> length (showNat n) \<le> Suc k"
proof (induction k arbitrary: n)
  case 0
  then show ?case by (subst showNat.simps) simp
next
  case (Suc k)
  show ?case
  proof (cases "n < 10")
    case True
    then show ?thesis by (subst showNat.simps) simp
  next
    case False
    have "n div 10 < 10 ^ Suc k" using Suc.prems by (simp add: less_mult_imp_div_less)
    then have "length (showNat (n div 10)) \<le> Suc k" by (rule Suc.IH)
    with False show ?thesis by (subst showNat.simps) simp
  qed
qed

lemma fallback_length:
  assumes "0 \<le> r" and "r < 1"
  shows "length (''Player'' @ showInt (randomIndex r 99999)) \<le> 11"
proof -
  have b: "0 \<le> double (r * 99999) \<and> double (r * 99999) < 100000"
  proof (cases "r = 0")
    case True
    then show ?thesis by (simp add: double_zero)
  next
    case False
    then have pos: "0 < r * 99999" using assms by simp
    have "r * 99999 / 2 ^ 53 < 1" using assms by simp
    moreover have "r * 99999 < 99999" using assms by simp
    ultimately show ?thesis using double_positive [OF pos] by linarith
  qed
  have lo: "0 \<le> randomIndex r 99999" using b by (simp add: randomIndex_def)
  have hi: "randomIndex r 99999 < 100000" using b by (simp add: randomIndex_def floor_less_iff)
  have "nat (randomIndex r 99999) < 10 ^ Suc 4" using lo hi by simp
  then have "length (showNat (nat (randomIndex r 99999))) \<le> Suc 4" by (rule showNat_length)
  then show ?thesis using lo by (simp add: showInt_def)
qed

lemma generateLoop_length:
  "(\<And>i. 0 \<le> r i \<and> r i < 1) \<Longrightarrow> length (fst (generateLoop r p k used)) \<le> 16"
proof (induction r p k used rule: generateLoop.induct)
  case (1 r p k used)
  show ?case
  proof (cases "k < 100")
    case False
    have "0 \<le> r p" "r p < 1" using "1.prems" by simp_all
    then have "length (''Player'' @ showInt (randomIndex (r p) 99999)) \<le> 11"
      by (rule fallback_length)
    with False show ?thesis by (subst generateLoop.simps) (simp add: Let_def)
  next
    case True
    obtain u p' where c: "candidate r p = (u, p')" by (cases "candidate r p")
    show ?thesis
    proof (cases "length u \<le> 16 \<and> u \<notin> used")
      case True
      with \<open>k < 100\<close> c show ?thesis by (subst generateLoop.simps) simp
    next
      case False
      with \<open>k < 100\<close> c "1.IH" [of "(u, p')" u p'] "1.prems" show ?thesis
        by (subst generateLoop.simps) auto
    qed
  qed
qed

lemma generateLoop_fresh_or_fallback:
  "fst (generateLoop r p k used) \<notin> used
   \<or> (\<exists>q. fst (generateLoop r p k used) = ''Player'' @ showInt (randomIndex (r q) 99999))"
proof (induction r p k used rule: generateLoop.induct)
  case (1 r p k used)
  show ?case
  proof (cases "k < 100")
    case False
    then show ?thesis by (subst (1 2) generateLoop.simps) (auto simp add: Let_def)
  next
    case True
    obtain u p' where c: "candidate r p = (u, p')" by (cases "candidate r p")
    show ?thesis
    proof (cases "length u \<le> 16 \<and> u \<notin> used")
      case True
      with \<open>k < 100\<close> c show ?thesis by (subst (1 2) generateLoop.simps) simp
    next
      case False
      with \<open>k < 100\<close> c "1.IH" [of "(u, p')" u p'] show ?thesis
        by (subst (1 2) generateLoop.simps) auto
    qed
  qed
qed

section \<open>How the basic operations change the world\<close>

lemma broadcast_world:
  "snd (broadcastToClients m w) = w\<lparr>connectedClients := snd (sendAll m (connectedClients w))\<rparr>"
  by (simp add: broadcastToClients_def split: prod.splits)

lemma broadcast_pair:
  "broadcastToClients m w =
     (fst (sendAll m (connectedClients w)),
      w\<lparr>connectedClients := snd (sendAll m (connectedClients w))\<rparr>)"
  by (simp add: broadcastToClients_def split: prod.splits)

lemma emitStatus_world:
  "emitStatus a w =
     w\<lparr>emitted := emitted w @ [(a, StatusUpdate (getStatus a w))],
       connectedClients :=
         snd (sendAll (BotStatusMsg (getStatus a w) (routeId w a)) (connectedClients w))\<rparr>"
  by (simp add: emitStatus_def Let_def broadcast_world)

lemma emitError_world:
  "emitError a t w =
     w\<lparr>emitted := emitted w @ [(a, ErrorEvent t)],
       connectedClients :=
         (case t of
            ErrorObject err \<Rightarrow>
              snd (sendAll
                     (ErrorMsg (if message err = [] then ''Unknown bot error'' else message err)
                        (routeId w a))
                     (connectedClients w))
          | Primitive s nul \<Rightarrow>
              if nul then connectedClients w
              else snd (sendAll (ErrorMsg ''Unknown bot error'' (routeId w a)) (connectedClients w)))\<rparr>"
  by (simp add: emitError_def broadcast_world Let_def split: thrown.splits)

lemma emitLog_world:
  "emitLog a lvl msg w =
     w\<lparr>emitted := emitted w @ [(a, Log lvl msg)],
       storage := snd (createLogEntry \<lparr>inLevel = lvl, inMessage = msg\<rparr> (now w) (storage w)),
       microtasks := microtasks w
          @ [LogEntryMsg (fst (createLogEntry \<lparr>inLevel = lvl, inMessage = msg\<rparr> (now w) (storage w)))
               (routeId w a)]\<rparr>"
  by (simp add: emitLog_def split: prod.splits)

lemma createLogEntry_objects:
  "objects (snd (createLogEntry e t st)) = objects st"
  "botConfigs (snd (createLogEntry e t st)) = botConfigs st"
  by (simp_all add: createLogEntry_def Let_def)

lemma clearTimer_world:
  "clearTimer t w =
     w\<lparr>timers := (case t of None \<Rightarrow> timers w | Some i \<Rightarrow> AList.delete i (timers w))\<rparr>"
  by (simp add: clearTimer_def split: option.splits)

lemmas world_simps =
  emitStatus_world emitError_world emitLog_world setService_def setSession_def called_def
  addTimer_def clearTimer_world thisConfig_def createLogEntry_objects

text \<open>The definitions that evaluate a run of the server on a concrete world.\<close>

lemmas eval_simps =
  run_def initialWorld_def quietSession_def newMemStorage_def defaultBotConfig_def
  startRoute_def stopRoute_def putConfigRoute_def postConfigRoute_def onSessionEvent_def fireTimer_def
  getBotConfig_def getAllBotConfigs_def updateBotConfig_def updateBotStatus_def createBotConfig_def
  createLogEntry_def spread_def truthy_def mapGet_def orStr_def orNum_def nullish_def
  isConnected_def newService_def start_def stop_def shutdown_def handleDisconnection_def
  startAIBehaviors_def allocateUsername_def createBot_def getStatus_def botUsername_def thisConfig_def
  emitLog_def emitStatus_def emitError_def broadcastToClients_def drainMicrotasks_def
  setService_def setSession_def called_def addTimer_def clearTimer_def random_def
  releaseUsername_def showInt_def showNat.simps digitChar_def
  thrownToString_def messageOrString_def errorToString_def double_values
  liveSessions_def pendingTasks_def logsOf_def Let_def

lemmas scenario_defs =
  freshServer_def started_def startedTwice_def spawnedAfterReconnect_def loggedInAfterReconnect_def
  reconnectedOnce_def startedFailingQuit_def spawnedFailingQuit_def startedRandom_def
  reconnectedRandom_def disconnectedWanderer_def stoppedWanderer_def
  stoppedMidWander_def wanderEndedAfterStop_def stoppedFailingRemove_def revivedAfterStop_def
  stoppedAfterRename_def
  oneAttempt_def randomWanderer_def wanderer_def socketClosed_def failingQuit_def failingRemove_def
  failingQuitInWorld_def

section \<open>The reconnect counter\<close>

lemma handleDisconnection_exhausted:
  assumes "maxReconnectAttempts (thisConfig a w) \<le> reconnectAttempts (services w a)"
  shows "reconnectAttempts (services (handleDisconnection a w) a) = 0"
    and "timers (handleDisconnection a w) = timers w"
    and "bot' (services (handleDisconnection a w) a) = None"
    and "logsOf a (handleDisconnection a w)
          = logsOf a w @ [(''error'', ''Max reconnection attempts reached. Bot stopped.'')]"
  using assms
  by (auto simp add: handleDisconnection_def world_simps Let_def logsOf_def split: option.splits
      cong: let_weak_cong)

lemma handleDisconnection_reconnects:
  assumes "autoReconnect (thisConfig a w)"
    and "reconnectAttempts (services w a) < maxReconnectAttempts (thisConfig a w)"
  shows "reconnectAttempts (services (handleDisconnection a w) a) = reconnectAttempts (services w a) + 1"
    and "reconnectTimeout (services (handleDisconnection a w) a) = Some (nextTimer w)"
    and "map_of (timers (handleDisconnection a w)) (nextTimer w)
          = Some \<lparr>task = Reconnect a,
                   delay = real_of_int (reconnectInterval (thisConfig a w) * 1000),
                   repeating = False\<rparr>"
    and "timers (handleDisconnection a w)
          = AList.update (nextTimer w)
              \<lparr>task = Reconnect a,
               delay = real_of_int (reconnectInterval (thisConfig a w) * 1000),
               repeating = False\<rparr> (timers w)"
    and "nextTimer (handleDisconnection a w) = nextTimer w + 1"
    and "bot' (services (handleDisconnection a w) a) = None"
  using assms
  by (auto simp add: handleDisconnection_def world_simps Let_def update_conv' split: option.splits
      cong: let_weak_cong)

lemma login_resets: "reconnectAttempts (services (onEvent a Login w) a) = 0"
  by (simp add: world_simps)

lemma spawn_keeps:
  "reconnectAttempts (services (onEvent a Spawn w) a) = reconnectAttempts (services w a)"
  by (simp add: world_simps startAIBehaviors_def random_def Let_def split: option.splits prod.splits)

text \<open>
  C2, as the code has it. A disconnection (\<^verbatim>\<open>handleDisconnection\<close>, which the handlers of
  "end", "kicked" and "error" all call) with \<open>autoReconnect\<close> set and the counter below
  \<open>maxReconnectAttempts\<close> adds exactly 1 to the counter and schedules one reconnect
  timeout: it adds the timeout, of \<open>reconnectInterval\<close> seconds and single-shot, under a
  new handle that it keeps in \<open>reconnectTimeout\<close>, and the timers that were pending stay
  as they were, none added, none removed. The counter is set to 0 by the handler of the session's "login" event; the
  handler of "spawn" leaves it as it is. A disconnection with the counter at or above
  \<open>maxReconnectAttempts\<close> schedules nothing, leaves the service without a session, emits
  exactly one log entry, at error level, that the attempts are exhausted, and sets the
  counter to 0.
\<close>

theorem reconnect_counter:
  "(autoReconnect (thisConfig a w)
      \<and> reconnectAttempts (services w a) < maxReconnectAttempts (thisConfig a w)
    \<longrightarrow> reconnectAttempts (services (handleDisconnection a w) a) = reconnectAttempts (services w a) + 1
        \<and> reconnectTimeout (services (handleDisconnection a w) a) = Some (nextTimer w)
        \<and> map_of (timers (handleDisconnection a w)) (nextTimer w)
            = Some \<lparr>task = Reconnect a,
                     delay = real_of_int (reconnectInterval (thisConfig a w) * 1000),
                     repeating = False\<rparr>
        \<and> timers (handleDisconnection a w)
            = AList.update (nextTimer w)
                \<lparr>task = Reconnect a,
                 delay = real_of_int (reconnectInterval (thisConfig a w) * 1000),
                 repeating = False\<rparr> (timers w)
        \<and> nextTimer (handleDisconnection a w) = nextTimer w + 1)
   \<and> reconnectAttempts (services (onEvent a Login w) a) = 0
   \<and> reconnectAttempts (services (onEvent a Spawn w) a) = reconnectAttempts (services w a)
   \<and> (maxReconnectAttempts (thisConfig a w) \<le> reconnectAttempts (services w a)
    \<longrightarrow> timers (handleDisconnection a w) = timers w
        \<and> bot' (services (handleDisconnection a w) a) = None
        \<and> logsOf a (handleDisconnection a w)
            = logsOf a w @ [(''error'', ''Max reconnection attempts reached. Bot stopped.'')]
        \<and> reconnectAttempts (services (handleDisconnection a w) a) = 0)"
  using handleDisconnection_exhausted [where w = w and a = a]
    handleDisconnection_reconnects [where w = w and a = a]
    login_resets [of a w] spawn_keeps [of a w]
  by blast

text \<open>The witness: the default bot after its first connection attempt (counter 0 of 10,
  reconnecting), and a bot limited to one attempt whose reconnect has been made
  (counter 1 of 1, exhausted).\<close>

lemma started_facts:
  "let w = started
   in autoReconnect (thisConfig 0 w) \<and> reconnectAttempts (services w 0) = 0
      \<and> maxReconnectAttempts (thisConfig 0 w) = 10 \<and> nextTimer w = 0 \<and> timers w = []
      \<and> reconnectInterval (thisConfig 0 w) = 30
      \<and> \<not> useRandomNames (thisConfig 0 w)
      \<and> actualUsername (services w 0) = ''MinecraftBot_01''
      \<and> username (thisConfig 0 w) = ''MinecraftBot_01''
      \<and> createBotError w = None \<and> nextSession w = 1"
  by (simp add: scenario_defs eval_simps cong: let_weak_cong)

lemma reconnectedOnce_facts:
  "let w = reconnectedOnce
   in reconnectAttempts (services w 0) = 1 \<and> maxReconnectAttempts (thisConfig 0 w) = 1
      \<and> logsOf 0 w = [(''info'', ''Starting bot with username: MinecraftBot_01''),
                        (''info'', ''Connecting to example.com:12345''),
                        (''info'', ''Bot disconnected''),
                        (''info'', ''Auto-reconnect enabled. Attempt 1/1 in 30 seconds''),
                        (''info'', ''Starting bot with username: MinecraftBot_01''),
                        (''info'', ''Connecting to example.com:12345'')]"
  by (simp add: scenario_defs eval_simps cong: let_weak_cong)

theorem reconnect_counter_witness:
  "autoReconnect (thisConfig 0 started)
   \<and> reconnectAttempts (services started 0) < maxReconnectAttempts (thisConfig 0 started)
   \<and> reconnectAttempts (services (handleDisconnection 0 started) 0) = 1
   \<and> reconnectTimeout (services (handleDisconnection 0 started) 0) = Some 0
   \<and> timers (handleDisconnection 0 started)
       = [(0, \<lparr>task = Reconnect 0, delay = 30000, repeating = False\<rparr>)]
   \<and> maxReconnectAttempts (thisConfig 0 reconnectedOnce)
       \<le> reconnectAttempts (services reconnectedOnce 0)
   \<and> timers (handleDisconnection 0 reconnectedOnce) = timers reconnectedOnce
   \<and> bot' (services (handleDisconnection 0 reconnectedOnce) 0) = None
   \<and> logsOf 0 (handleDisconnection 0 reconnectedOnce)
       = logsOf 0 reconnectedOnce @ [(''error'', ''Max reconnection attempts reached. Bot stopped.'')]
   \<and> reconnectAttempts (services (handleDisconnection 0 reconnectedOnce) 0) = 0"
  using started_facts reconnectedOnce_facts
    reconnect_counter [where w = started and a = 0]
    reconnect_counter [where w = reconnectedOnce and a = 0]
  unfolding Let_def by simp

text \<open>
  C2 as stated fails at its middle part: the "spawn" handler does not touch the counter.
  A bot that was disconnected once and spawns after its reconnect, with no "login"
  delivered, still shows one attempt; it is a "login" that sets the counter to 0, of a bot
  that has not spawned.
\<close>

theorem spawn_does_not_reset_counterexample:
  "reconnectAttempts (services spawnedAfterReconnect 0) = 1
   \<and> reconnectAttempts (services loggedInAfterReconnect 0) = 0"
  by (simp add: scenario_defs eval_simps cong: let_weak_cong)

section \<open>Stopping\<close>

lemma fold_broadcast:
  "\<exists>cs. fold (\<lambda>m v. snd (broadcastToClients m v)) ms w = w\<lparr>connectedClients := cs\<rparr>"
proof (induction ms arbitrary: w)
  case Nil
  show ?case by (rule exI [of _ "connectedClients w"]) simp
next
  case (Cons m ms)
  obtain cs where
    "fold (\<lambda>m v. snd (broadcastToClients m v)) ms (snd (broadcastToClients m w))
       = (snd (broadcastToClients m w))\<lparr>connectedClients := cs\<rparr>"
    using Cons.IH by blast
  then show ?case by (intro exI [of _ cs]) (simp add: broadcast_world)
qed

lemma drainMicrotasks_world:
  "\<exists>cs. drainMicrotasks w = w\<lparr>connectedClients := cs, microtasks := []\<rparr>"
proof -
  obtain cs where "fold (\<lambda>m v. snd (broadcastToClients m v)) (microtasks w) w = w\<lparr>connectedClients := cs\<rparr>"
    using fold_broadcast by blast
  then show ?thesis by (intro exI [of _ cs]) (simp add: drainMicrotasks_def)
qed

lemma drainMicrotasks_fields:
  shows "storage (drainMicrotasks w) = storage w"
    and "botServices (drainMicrotasks w) = botServices w"
    and "services (drainMicrotasks w) = services w"
    and "routeId (drainMicrotasks w) = routeId w"
    and "nextService (drainMicrotasks w) = nextService w"
    and "sessions (drainMicrotasks w) = sessions w"
    and "nextSession (drainMicrotasks w) = nextSession w"
    and "timers (drainMicrotasks w) = timers w"
    and "nextTimer (drainMicrotasks w) = nextTimer w"
    and "usedNames (drainMicrotasks w) = usedNames w"
    and "rnd (drainMicrotasks w) = rnd w"
    and "rndPos (drainMicrotasks w) = rndPos w"
    and "now (drainMicrotasks w) = now w"
    and "createBotError (drainMicrotasks w) = createBotError w"
    and "emitted (drainMicrotasks w) = emitted w"
    and "microtasks (drainMicrotasks w) = []"
proof -
  obtain cs where eq: "drainMicrotasks w = w\<lparr>connectedClients := cs, microtasks := []\<rparr>"
    using drainMicrotasks_world by blast
  show "storage (drainMicrotasks w) = storage w"
    and "botServices (drainMicrotasks w) = botServices w"
    and "services (drainMicrotasks w) = services w"
    and "routeId (drainMicrotasks w) = routeId w"
    and "nextService (drainMicrotasks w) = nextService w"
    and "sessions (drainMicrotasks w) = sessions w"
    and "nextSession (drainMicrotasks w) = nextSession w"
    and "timers (drainMicrotasks w) = timers w"
    and "nextTimer (drainMicrotasks w) = nextTimer w"
    and "usedNames (drainMicrotasks w) = usedNames w"
    and "rnd (drainMicrotasks w) = rnd w"
    and "rndPos (drainMicrotasks w) = rndPos w"
    and "now (drainMicrotasks w) = now w"
    and "createBotError (drainMicrotasks w) = createBotError w"
    and "emitted (drainMicrotasks w) = emitted w"
    and "microtasks (drainMicrotasks w) = []"
    by (simp_all add: eq)
qed

lemma shutdown_fields:
  shows "botServices (shutdown a h w) = botServices w"
    and "services (shutdown a h w) = services w"
    and "timers (shutdown a h w) = timers w"
    and "usedNames (shutdown a h w) = usedNames w"
  by (simp_all add: shutdown_def world_simps Let_def split: option.splits cong: let_weak_cong)

lemma stop_botServices: "botServices (stop a w) = botServices w"
  by (simp add: stop_def world_simps shutdown_fields Let_def split: option.splits cong: let_weak_cong)

lemma stopRoute_unregistered:
  "map_of (botServices w) i = None \<Longrightarrow> stopRoute i w = (Reply 400 ''Bot not found or not running'', w)"
  by (simp add: stopRoute_def)

lemma stopRoute_registered:
  assumes "map_of (botServices w) i = Some a"
  shows "map_of (botServices (snd (stopRoute i w))) i = None"
    and "fst (stopRoute i w) = Reply 200 ''Bot stopped'' \<or> fst (stopRoute i w) = Reply 200 ''Bot force stopped''"
  using assms
  by (simp_all add: stopRoute_def Let_def broadcast_pair drainMicrotasks_fields stop_botServices
      delete_conv' cong: let_weak_cong)

text \<open>
  C5, as the code has it. \<^verbatim>\<open>POST /api/bot/:id/stop\<close> for an id with no registered instance
  is rejected with status 400 ("Bot not found or not running") and changes nothing. For a
  registered instance it answers with status 200 and leaves the registry without an entry
  for the id, whatever the session's \<^verbatim>\<open>quit()\<close> and \<^verbatim>\<open>removeAllListeners()\<close> throw and whether
  or not a socket \<^verbatim>\<open>send\<close> throws.
\<close>

theorem stopRoute_registry:
  "(map_of (botServices w) i = None
      \<longrightarrow> stopRoute i w = (Reply 400 ''Bot not found or not running'', w))
   \<and> (map_of (botServices w) i = Some a
      \<longrightarrow> map_of (botServices (snd (stopRoute i w))) i = None
        \<and> (fst (stopRoute i w) = Reply 200 ''Bot stopped''
            \<or> fst (stopRoute i w) = Reply 200 ''Bot force stopped''))"
  using stopRoute_unregistered [of w i] stopRoute_registered [of w i a] by blast

text \<open>The witness: the server at start-up, where nothing is registered, and the default
  bot started on a session whose \<^verbatim>\<open>quit()\<close> throws.\<close>

lemma startedFailingQuit_facts:
  "let w = startedFailingQuit
   in map_of (botServices w) (Num 1) = Some 0 \<and> bot' (services w 0) = Some 0
      \<and> quitError (sessions w 0) = Some socketClosed
      \<and> fst (stopRoute (Num 1) w) = Reply 200 ''Bot stopped''
      \<and> logsOf 0 (snd (stopRoute (Num 1) w))
          = [(''info'', ''Starting bot with username: MinecraftBot_01''),
             (''info'', ''Connecting to example.com:12345''),
             (''info'', ''Stopping bot...''),
             (''warn'', ''Error during bot shutdown: Error: socket closed'')]"
  by (simp add: scenario_defs eval_simps cong: let_weak_cong)

theorem stopRoute_registry_witness:
  "map_of (botServices freshServer) (Num 1) = None
   \<and> stopRoute (Num 1) freshServer = (Reply 400 ''Bot not found or not running'', freshServer)
   \<and> map_of (botServices startedFailingQuit) (Num 1) = Some 0
   \<and> quitError (sessions startedFailingQuit 0) = Some socketClosed
   \<and> map_of (botServices (snd (stopRoute (Num 1) startedFailingQuit))) (Num 1) = None
   \<and> fst (stopRoute (Num 1) startedFailingQuit) = Reply 200 ''Bot stopped''
   \<and> logsOf 0 (snd (stopRoute (Num 1) startedFailingQuit))
       = [(''info'', ''Starting bot with username: MinecraftBot_01''),
          (''info'', ''Connecting to example.com:12345''),
          (''info'', ''Stopping bot...''),
          (''warn'', ''Error during bot shutdown: Error: socket closed'')]"
proof -
  have h1: "map_of (botServices freshServer) (Num 1) = None"
    by (simp add: freshServer_def initialWorld_def)
  show ?thesis
    using h1 startedFailingQuit_facts
      stopRoute_registry [of freshServer "Num 1" 0]
      stopRoute_registry [of startedFailingQuit "Num 1" 0]
    unfolding Let_def by simp
qed

text \<open>C5 as stated fails at its first part: with nothing registered the caller gets an
  error answer, status 400.\<close>

theorem stopRoute_unregistered_counterexample:
  "fst (stopRoute (Num 1) freshServer) = Reply 400 ''Bot not found or not running''"
  by (simp add: stopRoute_def freshServer_def initialWorld_def)

section \<open>What stop() leaves behind\<close>

lemma stoppedMidWander_facts:
  "let w = stoppedMidWander
   in quitError (sessions w 0) = Some socketClosed
      \<and> logsOf 0 w = [(''info'', ''Starting bot with username: MinecraftBot_01''),
                        (''info'', ''Connecting to example.com:12345''),
                        (''info'', ''Bot spawned in the world''),
                        (''info'', ''AI wandering enabled''),
                        (''info'', ''AI chat enabled''),
                        (''info'', ''Stopping bot...''),
                        (''warn'', ''Error during bot shutdown: Error: socket closed'')]
      \<and> botServices w = []
      \<and> services w 0 = newService (config (services w 0))
      \<and> pendingTasks w = [ForwardOff 0, WanderDone 0]
      \<and> map fst (timers w) = [2, 3]
      \<and> commands (sessions w 0)
          = [LookAt 3 0 0, SetControlState ''forward'' True, RemoveAllListeners]
      \<and> length (emitted w) = 10"
  by (simp add: scenario_defs eval_simps performWander_def directions_def randomIndex_def
      cong: let_weak_cong)

lemma wanderEndedAfterStop_facts:
  "let w = wanderEndedAfterStop
   in drop 10 (emitted w)
        = [(0, StatusUpdate \<lparr>stId = 1, connected' = False, stUsername = ''MinecraftBot_01'',
                             uptime = 0, reconnectCount = 0, wandering = False,
                             serverInfo = None\<rparr>)]
      \<and> pendingTasks w = [ForwardOff 0]"
  by (simp add: scenario_defs eval_simps performWander_def directions_def randomIndex_def
      cong: let_weak_cong)

lemma stoppedFailingRemove_facts:
  "let w = stoppedFailingRemove
   in removeError (sessions w 0) = Some socketClosed
      \<and> logsOf 0 w = [(''info'', ''Starting bot with username: MinecraftBot_01''),
                        (''info'', ''Connecting to example.com:12345''),
                        (''info'', ''Stopping bot...''),
                        (''warn'', ''Error during bot shutdown: Error: socket closed'')]
      \<and> botServices w = []
      \<and> services w 0 = newService (config (services w 0))
      \<and> liveSessions (Num 1) w = []
      \<and> listener (sessions w 0) = Some 0
      \<and> commands (sessions w 0) = []"
  by (simp add: scenario_defs eval_simps cong: let_weak_cong)

lemma revivedAfterStop_facts:
  "let w = revivedAfterStop
   in botServices w = []
      \<and> liveSessions (Num 1) w = [1]
      \<and> bot' (services w 0) = Some 1
      \<and> listener (sessions w 1) = Some 0
      \<and> isActive (thisConfig 0 w) = False
      \<and> fst (stopRoute (Num 1) w) = Reply 400 ''Bot not found or not running''"
  by (simp add: scenario_defs eval_simps cong: let_weak_cong)

lemma stoppedAfterRename_facts:
  "let w = stoppedAfterRename
   in quitError (sessions w 1) = Some socketClosed
      \<and> loginName (sessions w 0) = ''AlexGaming_''
      \<and> loginName (sessions w 1) = ''Player0''
      \<and> botServices w = []
      \<and> liveSessions (Num 1) w = []
      \<and> usedNames w = {''AlexGaming_''}"
  by (simp add: scenario_defs eval_simps generateRandomUsername_zero_first
      generateRandomUsername_zero_later cong: let_weak_cong)

text \<open>
  C8 at three runs in which closing the session throws inside \<^verbatim>\<open>stop()\<close>. In each of them
  \<^verbatim>\<open>stop()\<close> returns, the error is logged at warn level, the service is left as a new one
  is and the registry is left empty; so far C8. But not every resource is released.

  A bot is stopped while it wanders, and \<^verbatim>\<open>quit()\<close> throws: the two timeouts that
  \<^verbatim>\<open>performWander\<close> set are in none of the three fields that \<^verbatim>\<open>stop()\<close> clears, so they are
  still pending, and when the second fires the stopped service emits one more status
  update.

  A bot is stopped and \<^verbatim>\<open>removeAllListeners()\<close> throws: \<^verbatim>\<open>quit()\<close> is skipped, so the session is
  never closed and keeps the handlers of the service; when it ends, the stopped service,
  which is in the registry no more, schedules a reconnect and opens a new session, that a
  stop request can no longer reach.

  A bot with random names is stopped after a reconnect, and \<^verbatim>\<open>quit()\<close> throws: \<^verbatim>\<open>stop()\<close>
  releases the name of the last session only, and the name of the first stays in
  \<^verbatim>\<open>usedNames\<close>.
\<close>

theorem stop_leaves_resources_behind:
  "quitError (sessions stoppedMidWander 0) = Some socketClosed
   \<and> logsOf 0 stoppedMidWander
       = [(''info'', ''Starting bot with username: MinecraftBot_01''),
          (''info'', ''Connecting to example.com:12345''),
          (''info'', ''Bot spawned in the world''),
          (''info'', ''AI wandering enabled''),
          (''info'', ''AI chat enabled''),
          (''info'', ''Stopping bot...''),
          (''warn'', ''Error during bot shutdown: Error: socket closed'')]
   \<and> botServices stoppedMidWander = []
   \<and> services stoppedMidWander 0 = newService (config (services stoppedMidWander 0))
   \<and> pendingTasks stoppedMidWander = [ForwardOff 0, WanderDone 0]
   \<and> commands (sessions stoppedMidWander 0)
       = [LookAt 3 0 0, SetControlState ''forward'' True, RemoveAllListeners]
   \<and> drop (length (emitted stoppedMidWander)) (emitted wanderEndedAfterStop)
       = [(0, StatusUpdate \<lparr>stId = 1, connected' = False, stUsername = ''MinecraftBot_01'',
                            uptime = 0, reconnectCount = 0, wandering = False,
                            serverInfo = None\<rparr>)]
   \<and> removeError (sessions stoppedFailingRemove 0) = Some socketClosed
   \<and> logsOf 0 stoppedFailingRemove
       = [(''info'', ''Starting bot with username: MinecraftBot_01''),
          (''info'', ''Connecting to example.com:12345''),
          (''info'', ''Stopping bot...''),
          (''warn'', ''Error during bot shutdown: Error: socket closed'')]
   \<and> botServices stoppedFailingRemove = []
   \<and> services stoppedFailingRemove 0 = newService (config (services stoppedFailingRemove 0))
   \<and> listener (sessions stoppedFailingRemove 0) = Some 0
   \<and> commands (sessions stoppedFailingRemove 0) = []
   \<and> botServices revivedAfterStop = []
   \<and> liveSessions (Num 1) revivedAfterStop = [1]
   \<and> listener (sessions revivedAfterStop 1) = Some 0
   \<and> fst (stopRoute (Num 1) revivedAfterStop) = Reply 400 ''Bot not found or not running''
   \<and> quitError (sessions stoppedAfterRename 1) = Some socketClosed
   \<and> loginName (sessions stoppedAfterRename 0) = ''AlexGaming_''
   \<and> loginName (sessions stoppedAfterRename 1) = ''Player0''
   \<and> botServices stoppedAfterRename = []
   \<and> liveSessions (Num 1) stoppedAfterRename = []
   \<and> usedNames stoppedAfterRename = {''AlexGaming_''}"
  using stoppedMidWander_facts wanderEndedAfterStop_facts stoppedFailingRemove_facts
    revivedAfterStop_facts stoppedAfterRename_facts
  unfolding Let_def by simp

text \<open>
  What does hold of C8, in every state: when the service holds a session and closing it
  throws (\<^verbatim>\<open>removeAllListeners()\<close> or, after it, \<^verbatim>\<open>quit()\<close>), \<^verbatim>\<open>stop()\<close> logs "Stopping bot..." and
  then, at warn level, the text of what was thrown; it leaves the service as a new one
  is (no session handle, no timer handle, no name, counters at zero); no timer whose
  handle one of the three timer fields held is pending any more; and the name the service
  had is released when the configuration asks for random names.
\<close>

lemma stop_logs_when_close_throws:
  assumes "bot' (services w a) = Some h"
    and "removeError (sessions w h) = Some e
         \<or> (removeError (sessions w h) = None \<and> quitError (sessions w h) = Some e)"
  shows "logsOf a (stop a w)
          = logsOf a w @ [(''info'', ''Stopping bot...''),
                          (''warn'', ''Error during bot shutdown: '' @ thrownToString e)]"
  using assms
  by (auto simp add: stop_def shutdown_def world_simps logsOf_def Let_def cong: let_weak_cong)

lemma stop_service: "services (stop a w) a = newService (config (services w a))"
  by (simp add: stop_def world_simps shutdown_fields newService_def Let_def split: option.splits
      cong: let_weak_cong)

lemma stop_timers_cleared:
  assumes "reconnectTimeout (services w a) = Some i \<or> wanderInterval (services w a) = Some i
           \<or> chatInterval (services w a) = Some i"
  shows "map_of (timers (stop a w)) i = None"
  using assms
  by (auto simp add: stop_def world_simps shutdown_fields Let_def delete_conv'
      split: option.splits cong: let_weak_cong)

lemma stop_usedNames:
  "usedNames (stop a w)
     = (if useRandomNames (thisConfig a w) \<and> actualUsername (services w a) \<noteq> []
        then usedNames w - {actualUsername (services w a)} else usedNames w)"
  by (simp add: stop_def world_simps shutdown_fields releaseUsername_def Let_def
      split: option.splits cong: let_weak_cong)

section \<open>Starting\<close>










section \<open>The username of a reconnect\<close>

lemma generateLoop_used:
  "snd (snd (generateLoop r p k used)) = insert (fst (generateLoop r p k used)) used"
proof (induction r p k used rule: generateLoop.induct)
  case (1 r p k used)
  show ?case
  proof (cases "k < 100")
    case False
    then show ?thesis by (subst (1 2) generateLoop.simps) (simp add: Let_def)
  next
    case True
    obtain u p' where c: "candidate r p = (u, p')" by (cases "candidate r p")
    show ?thesis
    proof (cases "length u \<le> 16 \<and> u \<notin> used")
      case True
      with \<open>k < 100\<close> c show ?thesis by (subst (1 2) generateLoop.simps) simp
    next
      case False
      with \<open>k < 100\<close> c "1.IH" [of "(u, p')" u p'] show ?thesis
        by (subst (1 2) generateLoop.simps) auto
    qed
  qed
qed










section \<open>Two sessions for one id, and timers that outlive a session\<close>

lemma startedTwice_facts:
  "let w = startedTwice
   in botServices w = [(Num 1, 1)]
      \<and> routeId w 0 = Num 1 \<and> routeId w 1 = Num 1
      \<and> bot' (services w 0) = Some 2 \<and> bot' (services w 1) = Some 1
      \<and> liveSessions (Num 1) w = [2, 1]
      \<and> listener (sessions w 1) = Some 1 \<and> listener (sessions w 2) = Some 0
      \<and> commands (sessions w 1) = [] \<and> commands (sessions w 2) = []"
  by (simp add: scenario_defs eval_simps cong: let_weak_cong)

text \<open>
  C1 at the run it names: the default bot is started, its session ends (the reconnect
  timeout is pending and \<^verbatim>\<open>isConnected()\<close> is false), a second start request for the same
  id is accepted, and the timeout of the first service fires. The registry holds the
  second service only, yet both services hold a session for id 1: the handles 2 and 1,
  each with its handlers attached and with no \<^verbatim>\<open>quit()\<close> called on it.
\<close>

theorem two_live_sessions_for_one_id:
  "liveSessions (Num 1) startedTwice = [2, 1]
   \<and> botServices startedTwice = [(Num 1, 1)]
   \<and> bot' (services startedTwice 0) = Some 2 \<and> routeId startedTwice 0 = Num 1
   \<and> bot' (services startedTwice 1) = Some 1 \<and> routeId startedTwice 1 = Num 1
   \<and> listener (sessions startedTwice 2) = Some 0 \<and> commands (sessions startedTwice 2) = []
   \<and> listener (sessions startedTwice 1) = Some 1 \<and> commands (sessions startedTwice 1) = []"
  using startedTwice_facts unfolding Let_def by simp

lemma disconnectedWanderer_facts:
  "let w = disconnectedWanderer
   in bot' (services w 0) = None
      \<and> wanderInterval (services w 0) = Some 0 \<and> chatInterval (services w 0) = Some 1
      \<and> pendingTasks w = [Wander 0, IdleChat 0, Reconnect 0]
      \<and> map fst (timers w) = [0, 1, 2]
      \<and> commands (sessions w 0) = [RemoveAllListeners]"
  by (simp add: scenario_defs eval_simps cong: let_weak_cong)

lemma stoppedWanderer_facts:
  "let w = stoppedWanderer
   in botServices w = [] \<and> pendingTasks w = [Wander 0, IdleChat 0] \<and> map fst (timers w) = [0, 1]
      \<and> services w 0 = newService (config (services w 0))"
  by (simp add: scenario_defs eval_simps cong: let_weak_cong)

text \<open>
  C3 at a bot with wandering and chat that has spawned and whose session then ends:
  \<^verbatim>\<open>handleDisconnection\<close> clears the session handle but cancels neither interval, so the
  wander and the chat timers (0 and 1) are still pending, next to the reconnect timeout,
  and the service still holds their handles. After the reconnect and a second spawn, which
  starts a second pair of intervals and overwrites the handles of the first, \<^verbatim>\<open>stop()\<close>
  cancels the second pair only: the first pair stays pending for ever, with the bot
  stopped and out of the registry.
\<close>

theorem disconnection_keeps_behavior_timers:
  "bot' (services disconnectedWanderer 0) = None
   \<and> pendingTasks disconnectedWanderer = [Wander 0, IdleChat 0, Reconnect 0]
   \<and> wanderInterval (services disconnectedWanderer 0) = Some 0
   \<and> chatInterval (services disconnectedWanderer 0) = Some 1
   \<and> botServices stoppedWanderer = []
   \<and> pendingTasks stoppedWanderer = [Wander 0, IdleChat 0]"
  using disconnectedWanderer_facts stoppedWanderer_facts unfolding Let_def by simp

text \<open>Why the timers left running send nothing to the session that was torn down: with
  no session handle, the callbacks of the wander and chat intervals and of the timeout
  that halts the forward motion return at once.\<close>

lemma behaviors_idle_without_session:
  assumes "bot' (services w a) = None"
  shows "runTask (Wander a) w = w" and "runTask (IdleChat a) w = w" and "runTask (ForwardOff a) w = w"
  using assms by (simp_all add: performWander_def performRandomChat_def)


section \<open>The order of the log entries\<close>

lemma started_logs:
  "let w = started
   in map logMessage (map snd (logs (storage w)))
        = [''Starting bot with username: MinecraftBot_01'', ''Connecting to example.com:12345'']
      \<and> map timestamp (map snd (logs (storage w))) = [0, 0]
      \<and> map logMessage (getLogEntries 100 (storage w))
        = [''Connecting to example.com:12345'', ''Starting bot with username: MinecraftBot_01'']"
  by (simp add: scenario_defs eval_simps getLogEntries_def sortBy_def slice0_def cong: let_weak_cong)

lemma two_entries_at_once:
  "map logMessage
     (getLogEntries 100
        (snd (createLogEntry \<lparr>inLevel = ''info'', inMessage = ''second''\<rparr> 5
           (snd (createLogEntry \<lparr>inLevel = ''info'', inMessage = ''first''\<rparr> 5 newMemStorage)))))
   = [''second'', ''first'']"
  by (simp add: getLogEntries_def createLogEntry_def newMemStorage_def sortBy_def slice0_def Let_def)

text \<open>
  C7 at two entries created in the same millisecond: the stable descending sort keeps
  them in emission order and the final \<^verbatim>\<open>reverse()\<close> turns them round, so the entry emitted
  second is returned first. So it is with the two entries that \<^verbatim>\<open>start()\<close> emits one after
  the other when the default bot is started.
\<close>

theorem getLogEntries_equal_timestamps:
  "map logMessage
     (getLogEntries 100
        (snd (createLogEntry \<lparr>inLevel = ''info'', inMessage = ''second''\<rparr> 5
           (snd (createLogEntry \<lparr>inLevel = ''info'', inMessage = ''first''\<rparr> 5 newMemStorage)))))
   = [''second'', ''first'']
   \<and> map logMessage (map snd (logs (storage started)))
       = [''Starting bot with username: MinecraftBot_01'', ''Connecting to example.com:12345'']
   \<and> map timestamp (map snd (logs (storage started))) = [0, 0]
   \<and> map logMessage (getLogEntries 100 (storage started))
       = [''Connecting to example.com:12345'', ''Starting bot with username: MinecraftBot_01'']"
  using two_entries_at_once started_logs unfolding Let_def by (intro conjI) simp_all


end
